theory Spec2Isabelle
  imports Complex_Main "HOL-Library.Monad_Syntax"
begin

section \<open>The network graph built by \<open>kidney-train.py\<close>\<close>

text \<open>
  The script builds a dataflow graph: \<open>conv_conv_pool\<close>, \<open>upsample_concat\<close>,
  \<open>upsampling_2D\<close> and \<open>make_unet\<close> take graph nodes and return graph nodes. A node is
  a value of \<open>tensor\<close>, one constructor per library operation the script calls, holding
  the arguments the script passes. The library infers a static shape for every node when
  the node is made and raises when the shapes do not fit; \<open>shape_of\<close> is that inference
  for the operations used here, and every constructor function (\<open>tf_conv2d\<close>, \<open>tf_concat\<close>,
  ...) returns \<open>None\<close> where the library call raises.
\<close>

type_synonym dim = "nat option"
type_synonym shape = "dim list"

datatype dtype = Float32 | Boolean

datatype activation = Relu | Sigmoid | Softmax

datatype padding = Valid | Same

datatype tensor =
    Placeholder dtype shape string
  | DivConst tensor real
  | SubConst tensor real
  | Conv2D tensor int "nat \<times> nat" "activation option" padding string
  | BatchNorm tensor tensor string
  | Act activation tensor string
  | MaxPool2D tensor "nat \<times> nat" "nat \<times> nat" string
  | ResizeNN tensor "nat \<times> nat" string
  | Concat "tensor list" int string

subsection \<open>Static shapes\<close>

fun merge_dim :: "dim \<Rightarrow> dim \<Rightarrow> dim option" where
  "merge_dim None d = Some d"
| "merge_dim (Some a) None = Some (Some a)"
| "merge_dim (Some a) (Some b) = (if a = b then Some (Some a) else None)"

fun add_dim :: "dim \<Rightarrow> dim \<Rightarrow> dim" where
  "add_dim (Some a) (Some b) = Some (a + b)"
| "add_dim _ _ = None"

text \<open>Two shapes joined along axis \<open>k\<close>: equal rank, every other dimension compatible.\<close>

definition concat2 :: "nat \<Rightarrow> shape \<Rightarrow> shape \<Rightarrow> shape option" where
  "concat2 k s1 s2 =
     (if length s1 \<noteq> length s2 \<or> length s1 \<le> k then None
      else those (map (\<lambda>i. if i = k then Some (add_dim (s1 ! i) (s2 ! i))
                              else merge_dim (s1 ! i) (s2 ! i)) [0..<length s1]))"

fun concat_all :: "nat \<Rightarrow> shape \<Rightarrow> shape list \<Rightarrow> shape option" where
  "concat_all k acc [] = Some acc"
| "concat_all k acc (s # ss) = (case concat2 k acc s of None \<Rightarrow> None | Some acc' \<Rightarrow> concat_all k acc' ss)"

text \<open>Python's axis argument: a negative axis counts from the last dimension.\<close>

definition norm_axis :: "int \<Rightarrow> nat \<Rightarrow> nat option" where
  "norm_axis axis r =
     (let a = (if axis < 0 then axis + int r else axis)
      in if 0 \<le> a \<and> a < int r then Some (nat a) else None)"

definition concat_shape :: "int \<Rightarrow> shape list \<Rightarrow> shape option" where
  "concat_shape axis ss =
     (case ss of [] \<Rightarrow> None
      | s # rest \<Rightarrow> (case norm_axis axis (length s) of None \<Rightarrow> None
                     | Some k \<Rightarrow> concat_all k s rest))"

text \<open>Output size of a stride-1 convolution window of size \<open>k\<close> along one dimension.\<close>

fun conv_out :: "padding \<Rightarrow> nat \<Rightarrow> dim \<Rightarrow> dim option" where
  "conv_out p k None = Some None"
| "conv_out Same k (Some h) = Some (Some h)"
| "conv_out Valid k (Some h) = (if h < k then None else Some (Some (h - k + 1)))"

text \<open>Output size of a pooling window of size \<open>k\<close> and stride \<open>s\<close>, padding \<open>valid\<close>.\<close>

fun pool_out :: "nat \<Rightarrow> nat \<Rightarrow> dim \<Rightarrow> dim option" where
  "pool_out k s None = Some None"
| "pool_out k s (Some h) = (if s = 0 \<or> h < k then None else Some (Some ((h - k) div s + 1)))"

fun shape_of :: "tensor \<Rightarrow> shape option" where
  "shape_of (Placeholder d s n) = Some s"
| "shape_of (DivConst t c) = shape_of t"
| "shape_of (SubConst t c) = shape_of t"
| "shape_of (Conv2D t f k a p n) =
     (case shape_of t of
        Some [b, h, w, Some c] \<Rightarrow>
          (if f \<le> 0 then None
           else (case (conv_out p (fst k) h, conv_out p (snd k) w) of
                   (Some h', Some w') \<Rightarrow> Some [b, h', w', Some (nat f)]
                 | _ \<Rightarrow> None))
      | _ \<Rightarrow> None)"
| "shape_of (BatchNorm t tr n) =
     (case shape_of t of
        Some s \<Rightarrow> (if s \<noteq> [] \<and> last s \<noteq> None \<and> shape_of tr \<noteq> None then Some s else None)
      | None \<Rightarrow> None)"
| "shape_of (Act a t n) = shape_of t"
| "shape_of (MaxPool2D t k s n) =
     (case shape_of t of
        Some [b, h, w, c] \<Rightarrow>
          (case (pool_out (fst k) (fst s) h, pool_out (snd k) (snd s) w) of
             (Some h', Some w') \<Rightarrow> Some [b, h', w', c]
           | _ \<Rightarrow> None)
      | _ \<Rightarrow> None)"
| "shape_of (ResizeNN t sz n) =
     (case shape_of t of
        Some [b, h, w, c] \<Rightarrow> Some [b, Some (fst sz), Some (snd sz), c]
      | _ \<Rightarrow> None)"
| "shape_of (Concat ts axis n) =
     (case those (map shape_of ts) of None \<Rightarrow> None | Some ss \<Rightarrow> concat_shape axis ss)"

text \<open>A node is returned only when its shape inference succeeds; otherwise the call raises.\<close>

definition checked :: "tensor \<Rightarrow> tensor option" where
  "checked t = (case shape_of t of None \<Rightarrow> None | Some s \<Rightarrow> Some t)"

definition tf_conv2d :: "tensor \<Rightarrow> int \<Rightarrow> nat \<times> nat \<Rightarrow> activation option \<Rightarrow> padding \<Rightarrow> string \<Rightarrow> tensor option" where
  "tf_conv2d t f k a p n = checked (Conv2D t f k a p n)"

definition tf_batch_normalization :: "tensor \<Rightarrow> tensor \<Rightarrow> string \<Rightarrow> tensor option" where
  "tf_batch_normalization t training n = checked (BatchNorm t training n)"

definition tf_activation :: "activation \<Rightarrow> tensor \<Rightarrow> string \<Rightarrow> tensor option" where
  "tf_activation a t n = checked (Act a t n)"

definition tf_max_pooling2d :: "tensor \<Rightarrow> nat \<times> nat \<Rightarrow> nat \<times> nat \<Rightarrow> string \<Rightarrow> tensor option" where
  "tf_max_pooling2d t k s n = checked (MaxPool2D t k s n)"

definition tf_resize_nearest_neighbor :: "tensor \<Rightarrow> nat \<times> nat \<Rightarrow> string \<Rightarrow> tensor option" where
  "tf_resize_nearest_neighbor t sz n = checked (ResizeNN t sz n)"

definition tf_concat :: "tensor list \<Rightarrow> int \<Rightarrow> string \<Rightarrow> tensor option" where
  "tf_concat ts axis n = checked (Concat ts axis n)"

subsection \<open>Names\<close>

text \<open>\<open>"{}".format(n)\<close> for a natural number: its decimal digits.\<close>

definition digit_char :: "nat \<Rightarrow> char" where
  "digit_char d = char_of (48 + d)"

fun str_nat :: "nat \<Rightarrow> string" where
  "str_nat n = (if n < 10 then [digit_char n] else str_nat (n div 10) @ [digit_char (n mod 10)])"

declare str_nat.simps [simp del]

text \<open>A name made inside \<open>tf.variable_scope(scope)\<close>.\<close>

definition scoped :: "string \<Rightarrow> string \<Rightarrow> string" where
  "scoped scope n = scope @ ''/'' @ n"

subsection \<open>\<open>conv_conv_pool\<close>\<close>

text \<open>
  One pass of the loop body of \<open>conv_conv_pool\<close> (lines 143 to 145), for the pair
  \<open>(i, F)\<close> that \<open>enumerate(n_filters)\<close> yields.
\<close>

definition conv_bn_act :: "tensor \<Rightarrow> activation \<Rightarrow> string \<Rightarrow> nat \<Rightarrow> tensor \<Rightarrow> nat \<Rightarrow> int \<Rightarrow> tensor option" where
  "conv_bn_act training activation scope name net i F =
     do {
       net1 \<leftarrow> tf_conv2d net F (3, 3) None Same (scoped scope (''conv_'' @ str_nat (i + 1)));
       net2 \<leftarrow> tf_batch_normalization net1 training (scoped scope (''bn_'' @ str_nat (i + 1)));
       tf_activation activation net2 (scoped scope (''relu'' @ str_nat name @ ''_'' @ str_nat (i + 1)))
     }"

text \<open>The loop \<open>for i, F in enumerate(n_filters)\<close>, started at index \<open>i\<close>.\<close>

fun conv_layers :: "tensor \<Rightarrow> activation \<Rightarrow> string \<Rightarrow> nat \<Rightarrow> tensor \<Rightarrow> nat \<Rightarrow> int list \<Rightarrow> tensor option" where
  "conv_layers training activation scope name net i [] = Some net"
| "conv_layers training activation scope name net i (F # Fs) =
     (case conv_bn_act training activation scope name net i F of
        None \<Rightarrow> None
      | Some net' \<Rightarrow> conv_layers training activation scope name net' (Suc i) Fs)"

text \<open>
  \<open>conv_conv_pool\<close> returns \<open>net\<close> when \<open>pool is False\<close> and the pair \<open>(net, pool)\<close>
  otherwise: the second component is \<open>None\<close> in the first case.
\<close>

definition conv_conv_pool :: "tensor \<Rightarrow> int list \<Rightarrow> tensor \<Rightarrow> nat \<Rightarrow> bool \<Rightarrow> activation \<Rightarrow> (tensor \<times> tensor option) option" where
  "conv_conv_pool input n_filters training name pool activation =
     (let scope = ''layer'' @ str_nat name in
      do {
        net \<leftarrow> conv_layers training activation scope name input 0 n_filters;
        if \<not> pool then Some (net, None)
        else do {
          p \<leftarrow> tf_max_pooling2d net (2, 2) (2, 2) (scoped scope (''pool_'' @ str_nat name));
          Some (net, Some p)
        }
      })"

subsection \<open>\<open>upsampling_2D\<close> and \<open>upsample_concat\<close>\<close>

text \<open>
  \<open>H, W, _ = tensor.get_shape().as_list()[1:]\<close> needs a rank-4 static shape, and
  \<open>H * H_multi\<close> needs \<open>H\<close> and \<open>W\<close> known; otherwise Python raises.
\<close>

definition upsampling_2D :: "tensor \<Rightarrow> nat \<Rightarrow> nat \<times> nat \<Rightarrow> tensor option" where
  "upsampling_2D t name size2 =
     (case shape_of t of
        Some [b, Some H, Some W, c] \<Rightarrow>
          (let H_multi = fst size2; W_multi = snd size2;
               target_H = H * H_multi;
               target_W = W * W_multi
           in tf_resize_nearest_neighbor t (target_H, target_W) (''upsample_'' @ str_nat name))
      | _ \<Rightarrow> None)"

definition upsample_concat :: "tensor \<Rightarrow> tensor \<Rightarrow> nat \<Rightarrow> tensor option" where
  "upsample_concat inputA input_B name =
     do {
       upsample \<leftarrow> upsampling_2D inputA name (2, 2);
       tf_concat [upsample, input_B] (- 1) (''concat_'' @ str_nat name)
     }"

subsection \<open>\<open>make_unet\<close>\<close>

text \<open>The unpacking \<open>conv, pool = conv_conv_pool(...)\<close>: it needs the pair.\<close>

definition unpack2 :: "(tensor \<times> tensor option) option \<Rightarrow> (tensor \<times> tensor) option" where
  "unpack2 r = (case r of Some (net, Some p) \<Rightarrow> Some (net, p) | _ \<Rightarrow> None)"

text \<open>The call with \<open>pool=False\<close>, whose result is used as one tensor.\<close>

definition single :: "(tensor \<times> tensor option) option \<Rightarrow> tensor option" where
  "single r = (case r of Some (net, None) \<Rightarrow> Some net | _ \<Rightarrow> None)"

definition make_unet :: "tensor \<Rightarrow> tensor \<Rightarrow> activation \<Rightarrow> int \<Rightarrow> tensor option" where
  "make_unet X training activation classes =
     do {
       net \<leftarrow> checked (SubConst (DivConst X 127.5) 1);
       net \<leftarrow> tf_conv2d net 3 (1, 1) None Valid ''color_space_adjust'';
       (conv1, pool1) \<leftarrow> unpack2 (conv_conv_pool net [8, 8] training 1 True Relu);
       (conv2, pool2) \<leftarrow> unpack2 (conv_conv_pool pool1 [16, 16] training 2 True Relu);
       (conv3, pool3) \<leftarrow> unpack2 (conv_conv_pool pool2 [32, 32] training 3 True Relu);
       (conv4, pool4) \<leftarrow> unpack2 (conv_conv_pool pool3 [64, 64] training 4 True Relu);
       conv5 \<leftarrow> single (conv_conv_pool pool4 [128, 128] training 5 False Relu);
       up6 \<leftarrow> upsample_concat conv5 conv4 6;
       conv6 \<leftarrow> single (conv_conv_pool up6 [64, 64] training 6 False Relu);
       up7 \<leftarrow> upsample_concat conv6 conv3 7;
       conv7 \<leftarrow> single (conv_conv_pool up7 [32, 32] training 7 False Relu);
       up8 \<leftarrow> upsample_concat conv7 conv2 8;
       conv8 \<leftarrow> single (conv_conv_pool up8 [16, 16] training 8 False Relu);
       up9 \<leftarrow> upsample_concat conv8 conv1 9;
       conv9 \<leftarrow> single (conv_conv_pool up9 [8, 8] training 9 False Relu);
       tf_conv2d conv9 classes (1, 1) (Some activation) Same ''final''
     }"

section \<open>The input pipeline: \<open>image_augmentation\<close> and \<open>get_image_mask\<close>\<close>

text \<open>
  The pipeline functions are modelled by the values their nodes compute at one evaluation.
  An image is a list of rows, a row a list of pixels, a pixel a list of channel values
  (shape \<open>(H, W, C)\<close>). What the run draws at random is an argument (\<open>draws\<close>), and what
  lies outside the script (the CSV field splitter, the file system, the photometric
  adjustments) is an argument too (\<open>world\<close>), so every statement holds whatever they are.
  \<open>None\<close> is an evaluation that raises; each of the outside operations may raise as well.
\<close>

type_synonym 'a image = "'a list list list"

record draws =
  flip_lr :: bool
  flip_ud :: bool
  u_brightness :: real
  u_hue :: real

record world =
  decode_csv :: "string \<Rightarrow> string list \<Rightarrow> string list option"
  read_file :: "string \<Rightarrow> string option"
  adjust_brightness :: "real image \<Rightarrow> real \<Rightarrow> real image option"
  adjust_hue :: "real image \<Rightarrow> real \<Rightarrow> real image option"

text \<open>\<open>tf.concat([a, b], axis=-1)\<close> on two rank-3 values: heights and widths must agree.\<close>

definition concat_rows :: "'a list list \<Rightarrow> 'a list list \<Rightarrow> 'a list list option" where
  "concat_rows r1 r2 = (if length r1 = length r2 then Some (map2 (@) r1 r2) else None)"

definition concat_last :: "'a image \<Rightarrow> 'a image \<Rightarrow> 'a image option" where
  "concat_last a b =
     (if length a = length b then those (map2 concat_rows a b) else None)"

definition flip_left_right :: "'a image \<Rightarrow> 'a image" where
  "flip_left_right img = map rev img"

definition flip_up_down :: "'a image \<Rightarrow> 'a image" where
  "flip_up_down img = rev img"

text \<open>The random flips, given the outcome of the draw (\<open>True\<close>: the image is flipped).\<close>

definition random_flip_left_right :: "bool \<Rightarrow> 'a image \<Rightarrow> 'a image" where
  "random_flip_left_right coin img = (if coin then flip_left_right img else img)"

definition random_flip_up_down :: "bool \<Rightarrow> 'a image \<Rightarrow> 'a image" where
  "random_flip_up_down coin img = (if coin then flip_up_down img else img)"

text \<open>The slices \<open>t[:, :, :-1]\<close> and \<open>t[:, :, -1:]\<close>.\<close>

definition all_but_last_channel :: "'a image \<Rightarrow> 'a image" where
  "all_but_last_channel t = map (map butlast) t"

definition last_channel :: "'a image \<Rightarrow> 'a image" where
  "last_channel t = map (map (\<lambda>px. drop (length px - 1) px)) t"

text \<open>
  \<open>random_brightness(image, max_delta)\<close> and \<open>random_hue(image, max_delta)\<close> draw a delta
  uniformly between \<open>-max_delta\<close> and \<open>max_delta\<close>; \<open>u\<close> is the uniform draw from the unit
  interval behind it.
\<close>

definition random_brightness :: "world \<Rightarrow> real \<Rightarrow> real image \<Rightarrow> real \<Rightarrow> real image option" where
  "random_brightness wl u img max_delta = adjust_brightness wl img ((2 * u - 1) * max_delta)"

definition random_hue :: "world \<Rightarrow> real \<Rightarrow> real image \<Rightarrow> real \<Rightarrow> real image option" where
  "random_hue wl u img max_delta = adjust_hue wl img ((2 * u - 1) * max_delta)"

definition image_augmentation :: "world \<Rightarrow> draws \<Rightarrow> real image \<Rightarrow> real image \<Rightarrow> (real image \<times> real image) option" where
  "image_augmentation wl d image' mask' =
     do {
       concat_image \<leftarrow> concat_last image' mask';
       let maybe_flipped = random_flip_left_right (flip_lr d) concat_image;
       let maybe_flipped = random_flip_up_down (flip_ud d) concat_image;
       let image = all_but_last_channel maybe_flipped;
       let mask = last_channel maybe_flipped;
       image \<leftarrow> random_brightness wl (u_brightness d) image 0.7;
       image \<leftarrow> random_hue wl (u_hue d) image 0.3;
       Some (image, mask)
     }"

text \<open>
  \<open>tf.TextLineReader(skip_header_lines=n).read(queue)\<close>: the queue holds files, each a
  list of lines; the reader drops the first \<open>n\<close> lines of every file and yields the
  others in order. The \<open>k\<close>-th read returns the \<open>k\<close>-th of them, and raises when they
  are used up.
\<close>

definition reader_records :: "nat \<Rightarrow> string list list \<Rightarrow> string list" where
  "reader_records skip_header_lines queue = concat (map (drop skip_header_lines) queue)"

definition text_line_reader_read :: "nat \<Rightarrow> string list list \<Rightarrow> nat \<Rightarrow> string option" where
  "text_line_reader_read skip_header_lines queue k =
     (let records = reader_records skip_header_lines queue
      in if k < length records then Some (records ! k) else None)"

text \<open>\<open>tf.cast(t, tf.float32)\<close> on a decoded image of bytes.\<close>

definition cast_float :: "nat image \<Rightarrow> real image" where
  "cast_float t = map (map (map real)) t"

text \<open>
  \<open>get_image_mask\<close> at its \<open>k\<close>-th evaluation. \<open>set_shape\<close> only annotates the static
  shape and leaves the value as it is, so \<open>height\<close> and \<open>width\<close> do not enter the value.
  The second argument of \<open>decode_csv\<close> is \<open>record_defaults\<close>, one default per column:
  the empty string (the empty list of characters) twice.
\<close>

definition get_image_mask ::
  "world \<Rightarrow> draws \<Rightarrow> string list list \<Rightarrow> string \<Rightarrow> bool \<Rightarrow> (string \<Rightarrow> nat \<Rightarrow> nat image option) \<Rightarrow> nat \<Rightarrow>
   (real image \<times> real image) option" where
  "get_image_mask wl d queue data_root augmentation img_decoder k =
     do {
       csv_content \<leftarrow> text_line_reader_read 1 queue k;
       fields \<leftarrow> decode_csv wl csv_content [[], []];
       (image_path, mask_path) \<leftarrow> (case fields of [a, b] \<Rightarrow> Some (a, b) | _ \<Rightarrow> None);
       let image_path = data_root @ image_path;
       let mask_path = data_root @ mask_path;
       image_file \<leftarrow> read_file wl image_path;
       mask_file \<leftarrow> read_file wl mask_path;
       image \<leftarrow> img_decoder image_file 3;
       let image = cast_float image;
       mask \<leftarrow> img_decoder mask_file 1;
       let mask = cast_float mask;
       if augmentation then image_augmentation wl d image mask else Some (image, mask)
     }"

definition get_line_num :: "string list \<Rightarrow> nat" where
  "get_line_num infile = length infile"

section \<open>The loss: \<open>IOU_\<close>, \<open>sparse_iou\<close> and \<open>make_train_op\<close>\<close>

text \<open>
  The loss functions are modelled by the value their nodes compute from the values of
  \<open>y_pred\<close> and \<open>y_true\<close>. The elements of the tensors are \<open>float32\<close> numbers: their type
  is the parameter \<open>'f\<close>, and the operations of the library on them are an argument
  (\<open>arith\<close>). The functions below say which operation is applied to what, in the order of
  the script, and every statement about them holds whatever the arithmetic is: rounding,
  infinities and NaN are values of \<open>'f\<close> and results of the operations. The static shape
  of \<open>y_pred\<close>, which the script reads with \<open>get_shape\<close> and \<open>.shape\<close>, is an argument of
  its own. \<open>None\<close> is an evaluation that raises.
\<close>

record 'f arith =
  fconst :: "rat \<Rightarrow> 'f"
  fcast :: "bool \<Rightarrow> 'f"
  fequal :: "'f \<Rightarrow> 'f \<Rightarrow> bool"
  fmul :: "'f \<Rightarrow> 'f \<Rightarrow> 'f"
  fadd :: "'f \<Rightarrow> 'f \<Rightarrow> 'f"
  fdiv :: "'f \<Rightarrow> 'f \<Rightarrow> 'f"
  fneg :: "'f \<Rightarrow> 'f"
  fsum :: "'f list \<Rightarrow> 'f"
  fmean :: "'f list \<Rightarrow> 'f"

text \<open>
  \<open>fconst\<close> is a Python number made a \<open>float32\<close> constant, \<open>fcast\<close> is \<open>tf.cast\<close> of a
  Boolean, \<open>fequal\<close> is \<open>tf.equal\<close> on two elements, \<open>fmul\<close>, \<open>fadd\<close>, \<open>fdiv\<close> and \<open>fneg\<close> are
  \<open>*\<close>, \<open>+\<close>, \<open>/\<close> and unary \<open>-\<close> on two elements, \<open>fsum\<close> is \<open>tf.reduce_sum\<close> along one
  axis and \<open>fmean\<close> is \<open>tf.reduce_mean\<close> of all elements.
\<close>

text \<open>\<open>tf.reshape(t, [-1, k])\<close> on the flattened elements of \<open>t\<close>.\<close>

fun chunks :: "nat \<Rightarrow> nat \<Rightarrow> 'a list \<Rightarrow> 'a list list" where
  "chunks 0 k xs = []"
| "chunks (Suc n) k xs = take k xs # chunks n k (drop k xs)"

definition reshape_rows :: "nat \<Rightarrow> 'a list \<Rightarrow> 'a list list option" where
  "reshape_rows k xs =
     (if k = 0 \<or> length xs mod k \<noteq> 0 then None else Some (chunks (length xs div k) k xs))"

text \<open>An elementwise operation on the leading axis, with broadcasting of a length-1 axis.\<close>

definition broadcast :: "('a \<Rightarrow> 'b \<Rightarrow> 'c) \<Rightarrow> 'a list \<Rightarrow> 'b list \<Rightarrow> 'c list option" where
  "broadcast f xs ys =
     (if length xs = length ys then Some (map2 f xs ys)
      else if length xs = 1 then Some (map (f (hd xs)) ys)
      else if length ys = 1 then Some (map (\<lambda>x. f x (hd ys)) xs)
      else None)"

text \<open>
  \<open>IOU_\<close> of the script (here \<open>IOU_fun\<close>), as \<open>sparse_iou\<close> calls it: \<open>y_pred\<close> has shape
  \<open>(N, H, W)\<close> and static shape \<open>pshape\<close>, \<open>y_true\<close> is a Boolean tensor of shape
  \<open>(N, H, W, 1)\<close>. The \<open>tf.cast\<close> of line 262 is applied to a \<open>float32\<close> tensor and
  returns it.
\<close>

definition IOU_fun :: "'f arith \<Rightarrow> shape \<Rightarrow> 'f list list list \<Rightarrow> bool list list list list \<Rightarrow> 'f option" where
  "IOU_fun ar pshape y_pred y_true =
     (case take 2 (drop 1 pshape) of
        [Some H, Some W] \<Rightarrow>
          do {
            pred_flat \<leftarrow> reshape_rows (H * W) (concat (concat y_pred));
            true_flat \<leftarrow> reshape_rows (H * W) (concat (concat (concat y_true)));
            let true_flat = map (map (fcast ar)) true_flat;
            products \<leftarrow> broadcast (map2 (fmul ar)) pred_flat true_flat;
            let intersection =
                  map (\<lambda>r. fadd ar (fmul ar (fconst ar 2) (fsum ar r)) (fconst ar (1 / 10000000)))
                      products;
            totals \<leftarrow> broadcast (fadd ar) (map (fsum ar) pred_flat) (map (fsum ar) true_flat);
            let denominator = map (\<lambda>x. fadd ar x (fconst ar (1 / 10000000))) totals;
            ratios \<leftarrow> broadcast (fdiv ar) intersection denominator;
            Some (fmean ar ratios)
          }
      | _ \<Rightarrow> None)"

text \<open>\<open>y_pred[:, :, :, cc]\<close>: every pixel must have a channel \<open>cc\<close>.\<close>

definition channel :: "nat \<Rightarrow> 'a list list list list \<Rightarrow> 'a list list list option" where
  "channel cc t =
     (if list_all (list_all (list_all (\<lambda>px. cc < length px))) t
      then Some (map (map (map (\<lambda>px. px ! cc))) t) else None)"

text \<open>\<open>tf.equal(y_true, cc)\<close>, the integer \<open>cc\<close> made a constant.\<close>

definition equal_const :: "'f arith \<Rightarrow> 'f list list list list \<Rightarrow> nat \<Rightarrow> bool list list list list" where
  "equal_const ar t cc = map (map (map (map (\<lambda>v. fequal ar v (fconst ar (of_nat cc)))))) t"

text \<open>
  \<open>sparse_iou\<close>: \<open>y_pred\<close> is a value of rank 4, so its static shape has four entries;
  \<open>channels = y_pred.shape[-1]\<close> is the last of them, and \<open>range(channels)\<close> needs it known.
\<close>

definition sparse_iou :: "'f arith \<Rightarrow> shape \<Rightarrow> 'f list list list list \<Rightarrow> 'f list list list list \<Rightarrow> 'f option" where
  "sparse_iou ar pshape y_pred y_true =
     (if length pshape \<noteq> 4 then None
      else case last pshape of
        None \<Rightarrow> None
      | Some channels \<Rightarrow>
          do {
            iou_list \<leftarrow> those (map (\<lambda>cc. do { p \<leftarrow> channel cc y_pred;
                                          IOU_fun ar (butlast pshape) p (equal_const ar y_true cc) })
                              [0..<channels]);
            Some (fmean ar iou_list)
          })"

text \<open>
  The operation \<open>make_train_op\<close> returns: Adam with the given parameters, minimising
  \<open>loss\<close>.
\<close>

record 'f train_op =
  loss :: "'f option"
  adam_learning_rate :: real
  adam_beta1 :: real
  adam_beta2 :: real
  adam_epsilon :: real

definition make_train_op ::
  "'f arith \<Rightarrow> shape \<Rightarrow> 'f list list list list \<Rightarrow> 'f list list list list \<Rightarrow> real \<Rightarrow> real \<Rightarrow> real \<Rightarrow> real \<Rightarrow> 'f train_op" where
  "make_train_op ar pshape y_pred y_true learning_rate0 beta1 beta2 epsilon =
     (let loss0 = map_option (fneg ar) (sparse_iou ar pshape y_pred y_true)
      in \<lparr>loss = loss0, adam_learning_rate = learning_rate0, adam_beta1 = beta1,
          adam_beta2 = beta2, adam_epsilon = epsilon\<rparr>)"

subsection \<open>Single-precision arithmetic\<close>

text \<open>
  The arithmetic of \<open>float32\<close> (IEEE 754 binary32, rounding to nearest, ties to even): a
  value is finite, with a sign and a magnitude, or an infinity with a sign, or NaN. The
  sign is \<open>True\<close> for a negative value.
\<close>

datatype f32 = Finite bool rat | Infinity bool | NaN

text \<open>The number of binary digits of a positive integer.\<close>

function bits :: "int \<Rightarrow> int" where
  "bits n = (if n \<le> 0 then 0 else 1 + bits (n div 2))"
  by pat_completeness auto
termination
  by (relation "measure nat") auto

declare bits.simps [simp del]

definition pow2 :: "int \<Rightarrow> rat" where
  "pow2 e = (if 0 \<le> e then 2 ^ nat e else 1 / 2 ^ nat (- e))"

text \<open>The exponent of a positive rational: the largest \<open>e\<close> with \<open>2 ^ e \<le> q\<close>.\<close>

definition ilog2 :: "rat \<Rightarrow> int" where
  "ilog2 q =
     (let e0 = bits (fst (quotient_of q)) - bits (snd (quotient_of q))
      in if pow2 e0 \<le> q then e0 else e0 - 1)"

definition round_half_even :: "rat \<Rightarrow> int" where
  "round_half_even m =
     (let f = \<lfloor>m\<rfloor>; d = m - of_int f
      in if d < 1 / 2 then f else if 1 / 2 < d then f + 1 else if even f then f else f + 1)"

text \<open>
  Rounding a magnitude \<open>q \<ge> 0\<close> with sign \<open>s\<close>: 24 significant binary digits, the least
  exponent -126 (below it the spacing stays \<open>2 ^ -149\<close>), and infinity from \<open>2 ^ 128\<close> on.
\<close>

definition round32 :: "bool \<Rightarrow> rat \<Rightarrow> f32" where
  "round32 s q =
     (if q = 0 then Finite s 0
      else let e = max (ilog2 q) (- 126);
               u = pow2 (e - 23);
               r = of_int (round_half_even (q / u)) * u
           in if pow2 128 \<le> r then Infinity s else Finite s r)"

definition f32_of_rat :: "rat \<Rightarrow> f32" where
  "f32_of_rat x = round32 (x < 0) \<bar>x\<bar>"

definition signed :: "bool \<Rightarrow> rat \<Rightarrow> rat" where
  "signed s q = (if s then - q else q)"

fun f32_add :: "f32 \<Rightarrow> f32 \<Rightarrow> f32" where
  "f32_add NaN y = NaN"
| "f32_add x NaN = NaN"
| "f32_add (Infinity s) (Infinity t) = (if s = t then Infinity s else NaN)"
| "f32_add (Infinity s) (Finite t b) = Infinity s"
| "f32_add (Finite s a) (Infinity t) = Infinity t"
| "f32_add (Finite s a) (Finite t b) =
     (let x = signed s a + signed t b
      in if x = 0 then Finite (s \<and> t) 0 else round32 (x < 0) \<bar>x\<bar>)"

fun f32_mul :: "f32 \<Rightarrow> f32 \<Rightarrow> f32" where
  "f32_mul NaN y = NaN"
| "f32_mul x NaN = NaN"
| "f32_mul (Infinity s) (Infinity t) = Infinity (s \<noteq> t)"
| "f32_mul (Infinity s) (Finite t b) = (if b = 0 then NaN else Infinity (s \<noteq> t))"
| "f32_mul (Finite s a) (Infinity t) = (if a = 0 then NaN else Infinity (s \<noteq> t))"
| "f32_mul (Finite s a) (Finite t b) = round32 (s \<noteq> t) (a * b)"

fun f32_div :: "f32 \<Rightarrow> f32 \<Rightarrow> f32" where
  "f32_div NaN y = NaN"
| "f32_div x NaN = NaN"
| "f32_div (Infinity s) (Infinity t) = NaN"
| "f32_div (Infinity s) (Finite t b) = Infinity (s \<noteq> t)"
| "f32_div (Finite s a) (Infinity t) = Finite (s \<noteq> t) 0"
| "f32_div (Finite s a) (Finite t b) =
     (if b = 0 then (if a = 0 then NaN else Infinity (s \<noteq> t))
      else round32 (s \<noteq> t) (a / b))"

fun f32_neg :: "f32 \<Rightarrow> f32" where
  "f32_neg NaN = NaN"
| "f32_neg (Infinity s) = Infinity (\<not> s)"
| "f32_neg (Finite s a) = Finite (\<not> s) a"

text \<open>Equality of two numbers: NaN equals nothing, and the two zeros are equal.\<close>

fun f32_equal :: "f32 \<Rightarrow> f32 \<Rightarrow> bool" where
  "f32_equal (Finite s a) (Finite t b) = (signed s a = signed t b)"
| "f32_equal (Infinity s) (Infinity t) = (s = t)"
| "f32_equal _ _ = False"

text \<open>
  The reductions, taken in the order of the elements: the sum starts from zero, and the
  mean is the sum divided by the number of elements (NaN when there is none).
\<close>

definition f32_sum :: "f32 list \<Rightarrow> f32" where
  "f32_sum xs = foldl f32_add (Finite False 0) xs"

definition f32_mean :: "f32 list \<Rightarrow> f32" where
  "f32_mean xs = f32_div (f32_sum xs) (f32_of_rat (of_nat (length xs)))"

definition float32 :: "f32 arith" where
  "float32 =
     \<lparr>fconst = f32_of_rat, fcast = (\<lambda>b. Finite False (if b then 1 else 0)), fequal = f32_equal,
      fmul = f32_mul, fadd = f32_add, fdiv = f32_div, fneg = f32_neg,
      fsum = f32_sum, fmean = f32_mean\<rparr>"

section \<open>\<open>main\<close>\<close>

record flags =
  data_root :: string
  train :: string
  test :: string
  epochs :: int
  learning_rate :: real
  batch_size :: int
  channels :: int
  height :: int
  w :: int
  logdir :: string
  ckdir :: string

subsection \<open>The graph \<open>main\<close> builds\<close>

text \<open>\<open>tf.placeholder\<close>: a negative dimension is refused.\<close>

definition tf_placeholder :: "dtype \<Rightarrow> int option list \<Rightarrow> string \<Rightarrow> tensor option" where
  "tf_placeholder dt dims n =
     (if list_all (\<lambda>d. case d of None \<Rightarrow> True | Some i \<Rightarrow> 0 \<le> i) dims
      then Some (Placeholder dt (map (map_option nat) dims) n) else None)"

record graph =
  g_X :: tensor
  g_y :: tensor
  g_mode :: tensor
  g_activation :: activation
  g_pred :: tensor

text \<open>Lines 368 to 380 of \<open>main\<close>.\<close>

definition select_activation :: "flags \<Rightarrow> activation" where
  "select_activation fl = (if channels fl > 1 then Softmax else Sigmoid)"

definition main_graph :: "flags \<Rightarrow> graph option" where
  "main_graph fl =
     do {
       X \<leftarrow> tf_placeholder Float32 [None, Some (height fl), Some (w fl), Some 3] ''X'';
       y \<leftarrow> tf_placeholder Float32 [None, Some (height fl), Some (w fl), Some 1] ''y'';
       mode \<leftarrow> tf_placeholder Boolean [] ''mode'';
       let activation = select_activation fl;
       pred \<leftarrow> make_unet X mode activation (channels fl);
       Some \<lparr>g_X = X, g_y = y, g_mode = mode, g_activation = activation, g_pred = pred\<rparr>
     }"

text \<open>
  Lines 392 to 396: the two operations \<open>main\<close> runs in the session, as the values they
  compute when \<open>pred\<close> evaluates to \<open>pv\<close> and \<open>y\<close> is fed \<open>yv\<close>. \<open>tf.Print\<close> returns its
  first argument.
\<close>

definition tf_Print :: "'a \<Rightarrow> 'a" where
  "tf_Print x = x"

definition main_train_op :: "'f arith \<Rightarrow> flags \<Rightarrow> graph \<Rightarrow> 'f list list list list \<Rightarrow> 'f list list list list \<Rightarrow> 'f train_op option" where
  "main_train_op ar fl g pv yv =
     do {
       pshape \<leftarrow> shape_of (g_pred g);
       Some (make_train_op ar pshape pv yv (learning_rate fl) 0.9 0.999 (1 / 100000000))
     }"

definition main_IOU_op :: "'f arith \<Rightarrow> graph \<Rightarrow> 'f list list list list \<Rightarrow> 'f list list list list \<Rightarrow> 'f option option" where
  "main_IOU_op ar g pv yv =
     do {
       pshape \<leftarrow> shape_of (g_pred g);
       let IOU_op = sparse_iou ar pshape pv yv;
       let IOU_op = tf_Print IOU_op;
       Some IOU_op
     }"


subsection \<open>The session part of \<open>main\<close>: library calls, exceptions and \<open>finally\<close>\<close>

text \<open>
  From line 428 on, \<open>main\<close> is a sequence of library calls inside \<open>if\<close>, \<open>try\<close> and
  \<open>for\<close>. A run is modelled by the calls it makes, in order (\<open>trace\<close>, each call with
  whether it returned), and by which of the local variables \<open>coord\<close> and \<open>threads\<close> are
  bound. What the calls answer is not the script's to decide: \<open>env\<close> holds the answers of
  the three queries and, for the \<open>n\<close>-th call of the run, the exception it raises if any.
\<close>

datatype exn =
    FileNotFoundError
  | FileExistsError
  | OSError
  | UnboundLocalError
  | ValueError
  | OtherError string

text \<open>\<open>except OSError\<close> also catches the subclasses of \<open>OSError\<close>.\<close>

fun is_OSError :: "exn \<Rightarrow> bool" where
  "is_OSError FileNotFoundError = True"
| "is_OSError FileExistsError = True"
| "is_OSError OSError = True"
| "is_OSError _ = False"

datatype libcall =
    PathExists string
  | CheckpointExists string
  | LatestCheckpoint string
  | PrintRestoring string
  | Restore string
  | Rmdir string
  | Mkdir string
  | GetGlobalStep
  | NewCoordinator
  | StartQueueRunners
  | RunTrainBatch
  | RunTrainStep
  | AddTrainSummary
  | RunTestBatch
  | RunTestStep
  | AddTestSummary
  | Save string
  | RequestStop
  | Join

record env =
  path_exists :: bool
  checkpoint_exists :: bool
  latest_checkpoint :: "string option"
  raises :: "nat \<Rightarrow> exn option"

record st =
  trace :: "(libcall \<times> bool) list"
  coord_bound :: bool
  threads_bound :: bool

type_synonym 'a action = "st \<Rightarrow> (exn + 'a) \<times> st"

definition ret :: "'a \<Rightarrow> 'a action" where
  "ret x s = (Inr x, s)"

definition bnd :: "'a action \<Rightarrow> ('a \<Rightarrow> 'b action) \<Rightarrow> 'b action" where
  "bnd m f s = (case m s of (Inl e, s') \<Rightarrow> (Inl e, s') | (Inr x, s') \<Rightarrow> f x s')"

text \<open>A library call that answers \<open>v\<close> when it returns.\<close>

definition perform :: "env \<Rightarrow> libcall \<Rightarrow> 'a \<Rightarrow> 'a action" where
  "perform ev c v s =
     (case raises ev (length (trace s)) of
        None \<Rightarrow> (Inr v, s\<lparr>trace := trace s @ [(c, True)]\<rparr>)
      | Some e \<Rightarrow> (Inl e, s\<lparr>trace := trace s @ [(c, False)]\<rparr>))"

fun block :: "unit action list \<Rightarrow> unit action" where
  "block [] = ret ()"
| "block (a # as) = bnd a (\<lambda>_. block as)"

text \<open>\<open>try: body finally: fin\<close>: an exception of \<open>fin\<close> replaces the outcome of \<open>body\<close>.\<close>

definition try_finally :: "unit action \<Rightarrow> unit action \<Rightarrow> unit action" where
  "try_finally body fin s =
     (case body s of (r, s') \<Rightarrow>
        (case fin s' of (Inl e, s'') \<Rightarrow> (Inl e, s'') | (Inr _, s'') \<Rightarrow> (r, s'')))"

text \<open>\<open>try: body except ...\<close>: the first clause that matches the exception handles it.\<close>

definition try_except :: "unit action \<Rightarrow> ((exn \<Rightarrow> bool) \<times> unit action) list \<Rightarrow> unit action" where
  "try_except body handlers s =
     (case body s of
        (Inr x, s') \<Rightarrow> (Inr x, s')
      | (Inl e, s') \<Rightarrow>
          (case find (\<lambda>h. fst h e) handlers of
             None \<Rightarrow> (Inl e, s')
           | Some h \<Rightarrow> snd h s'))"

text \<open>Reading a local variable that no assignment has bound raises.\<close>

definition read_var :: "(st \<Rightarrow> bool) \<Rightarrow> unit action" where
  "read_var bound s = (if bound s then (Inr (), s) else (Inl UnboundLocalError, s))"

definition bind_coord :: "unit action" where
  "bind_coord s = (Inr (), s\<lparr>coord_bound := True\<rparr>)"

definition bind_threads :: "unit action" where
  "bind_threads s = (Inr (), s\<lparr>threads_bound := True\<rparr>)"

text \<open>Python's \<open>range(start, stop, step)\<close>, which raises on a zero step.\<close>

definition py_range :: "int \<Rightarrow> int \<Rightarrow> int \<Rightarrow> int list option" where
  "py_range start stop step =
     (if step = 0 then None
      else if step > 0
        then Some (map (\<lambda>i. start + int i * step) [0..<nat ((stop - start + step - 1) div step)])
        else Some (map (\<lambda>i. start + int i * step) [0..<nat ((start - stop - step - 1) div (- step))]))"

definition for_range :: "int \<Rightarrow> int \<Rightarrow> int \<Rightarrow> (int \<Rightarrow> unit action) \<Rightarrow> unit action" where
  "for_range start stop step body s =
     (case py_range start stop step of
        None \<Rightarrow> (Inl ValueError, s)
      | Some xs \<Rightarrow> block (map body xs) s)"

text \<open>Lines 429 to 441.\<close>

definition restore_or_init :: "env \<Rightarrow> flags \<Rightarrow> unit action" where
  "restore_or_init ev fl =
     bnd (bnd (perform ev (PathExists (ckdir fl)) (path_exists ev))
              (\<lambda>a. if a then perform ev (CheckpointExists (ckdir fl)) (checkpoint_exists ev)
                    else ret False))
         (\<lambda>c. if c
               then bnd (perform ev (LatestCheckpoint (ckdir fl)) (latest_checkpoint ev))
                        (\<lambda>latest_check_point.
                           case latest_check_point of
                             None \<Rightarrow> ret ()
                           | Some p \<Rightarrow> block [perform ev (PrintRestoring p) (),
                                               perform ev (Restore p) ()])
               else block [try_except (perform ev (Rmdir (ckdir fl)) ())
                             [(\<lambda>e. e = FileNotFoundError, ret ()), (is_OSError, ret ())],
                           perform ev (Mkdir (ckdir fl)) ()])"

text \<open>Lines 444 to 476, the body of the \<open>try\<close>.\<close>

definition ckpt_path :: "flags \<Rightarrow> string" where
  "ckpt_path fl = ckdir fl @ ''/model.ckpt''"

definition train_body :: "env \<Rightarrow> flags \<Rightarrow> nat \<Rightarrow> nat \<Rightarrow> unit action" where
  "train_body ev fl n_train n_test =
     block [
       perform ev GetGlobalStep (),
       bnd (perform ev NewCoordinator ()) (\<lambda>_. bind_coord),
       bnd (perform ev StartQueueRunners ()) (\<lambda>_. bind_threads),
       for_range 0 (epochs fl) 1 (\<lambda>epoch. block [
         for_range 0 (int n_train) (batch_size fl) (\<lambda>step. block [
           perform ev RunTrainBatch (),
           perform ev RunTrainStep (),
           perform ev AddTrainSummary ()]),
         for_range 0 (int n_test) (batch_size fl) (\<lambda>step. block [
           perform ev RunTestBatch (),
           perform ev RunTestStep (),
           perform ev AddTestSummary ()])]),
       perform ev (Save (ckpt_path fl)) ()]"

text \<open>Lines 479 to 481, the \<open>finally\<close> clause.\<close>

definition train_finally :: "env \<Rightarrow> flags \<Rightarrow> unit action" where
  "train_finally ev fl =
     block [
       bnd (read_var coord_bound) (\<lambda>_. perform ev RequestStop ()),
       bnd (read_var coord_bound) (\<lambda>_. bnd (read_var threads_bound) (\<lambda>_. perform ev Join ())),
       perform ev (Save (ckpt_path fl)) ()]"

definition train_block :: "env \<Rightarrow> flags \<Rightarrow> nat \<Rightarrow> nat \<Rightarrow> unit action" where
  "train_block ev fl n_train n_test =
     try_finally (train_body ev fl n_train n_test) (train_finally ev fl)"

definition main_session :: "env \<Rightarrow> flags \<Rightarrow> nat \<Rightarrow> nat \<Rightarrow> unit action" where
  "main_session ev fl n_train n_test =
     block [restore_or_init ev fl, train_block ev fl n_train n_test]"

text \<open>The state in which the session part starts: no call made, no variable bound.\<close>

definition start :: st where
  "start = \<lparr>trace = [], coord_bound = False, threads_bound = False\<rparr>"

section \<open>Notions the statements use\<close>

subsection \<open>Shapes of the topology\<close>

text \<open>
  \<open>peel_layers a tr Fs t\<close> takes layers off \<open>t\<close> from the outside, one per filter count in
  \<open>Fs\<close>: each must be the activation \<open>a\<close>, applied to a batch normalisation (governed by
  \<open>tr\<close>), applied to a 3x3 convolution with that many filters, padding \<open>same\<close> and no
  activation of its own. It returns the node under the layers.
\<close>

fun peel_layers :: "activation \<Rightarrow> tensor \<Rightarrow> int list \<Rightarrow> tensor \<Rightarrow> tensor option" where
  "peel_layers a tr [] t = Some t"
| "peel_layers a tr (F # Fs) t =
     (case t of
        Act a' bn n3 \<Rightarrow>
          (case bn of
             BatchNorm cv tr' n2 \<Rightarrow>
               (case cv of
                  Conv2D u F' k act p n1 \<Rightarrow>
                    (if a' = a \<and> tr' = tr \<and> F' = F \<and> k = (3, 3) \<and> act = None \<and> p = Same
                     then peel_layers a tr Fs u else None)
                | _ \<Rightarrow> None)
           | _ \<Rightarrow> None)
      | _ \<Rightarrow> None)"

text \<open>
  \<open>out\<close> is \<open>inp\<close> under a chain of convolution, batch normalisation, activation, one
  triple per element of \<open>Fs\<close>, the first element innermost.
\<close>

definition conv_bn_act_chain :: "activation \<Rightarrow> tensor \<Rightarrow> tensor \<Rightarrow> int list \<Rightarrow> tensor \<Rightarrow> bool" where
  "conv_bn_act_chain a tr inp Fs out = (peel_layers a tr (rev Fs) out = Some inp)"

text \<open>\<open>p\<close> is the 2x2 max-pooling of \<open>t\<close> with stride 2.\<close>

definition is_pool_of :: "tensor \<Rightarrow> tensor \<Rightarrow> bool" where
  "is_pool_of p t = (case p of MaxPool2D t' k s n \<Rightarrow> t' = t \<and> k = (2, 2) \<and> s = (2, 2) | _ \<Rightarrow> False)"

text \<open>
  \<open>up\<close> is the concatenation, along the last axis, of \<open>low\<close> resized by nearest neighbour
  to twice its height and width, and of \<open>skip\<close>, in that order.
\<close>

definition is_upsample2_concat :: "tensor \<Rightarrow> tensor \<Rightarrow> tensor \<Rightarrow> bool" where
  "is_upsample2_concat up low skip =
     (case up of
        Concat ts axis n \<Rightarrow>
          axis = - 1 \<and>
          (case ts of
             [a, s] \<Rightarrow>
               s = skip \<and>
               (case a of
                  ResizeNN t sz n' \<Rightarrow>
                    t = low \<and>
                    (case shape_of low of
                       Some [b, Some h, Some wd, c] \<Rightarrow> sz = (2 * h, 2 * wd)
                     | _ \<Rightarrow> False)
                | _ \<Rightarrow> False)
           | _ \<Rightarrow> False)
      | _ \<Rightarrow> False)"

subsection \<open>Overlap ratios\<close>

text \<open>
  For one flattened prediction \<open>p\<close> and one flattened mask \<open>t\<close>, as exact numbers: the
  intersection area is the sum of the products, the union area is the two areas less the
  intersection, and \<open>iou_ratio\<close> is the intersection over the union.
\<close>

definition intersection_area :: "rat list \<Rightarrow> rat list \<Rightarrow> rat" where
  "intersection_area p t = sum_list (map2 (*) p t)"

definition iou_ratio :: "rat list \<Rightarrow> rat list \<Rightarrow> rat" where
  "iou_ratio p t = intersection_area p t / (sum_list p + sum_list t - intersection_area p t)"

definition batch_mean :: "(rat list \<Rightarrow> rat list \<Rightarrow> rat) \<Rightarrow> rat list list \<Rightarrow> rat list list \<Rightarrow> rat" where
  "batch_mean f ps ts = sum_list (map2 f ps ts) / of_nat (length ps)"

text \<open>
  In the arithmetic \<open>ar\<close>: twice the sum of the products, plus the constant, over the sum
  of the prediction plus the sum of the mask plus the constant.
\<close>

definition dice :: "'f arith \<Rightarrow> 'f list \<Rightarrow> 'f list \<Rightarrow> 'f" where
  "dice ar p t =
     fdiv ar (fadd ar (fmul ar (fconst ar 2) (fsum ar (map2 (fmul ar) p t))) (fconst ar (1 / 10000000)))
             (fadd ar (fadd ar (fsum ar p) (fsum ar t)) (fconst ar (1 / 10000000)))"

definition flat_pred :: "'f list list list \<Rightarrow> 'f list list" where
  "flat_pred y_pred = map concat y_pred"

definition flat_true :: "'f arith \<Rightarrow> bool list list list list \<Rightarrow> 'f list list" where
  "flat_true ar y_true = map (\<lambda>m. map (fcast ar) (concat (concat m))) y_true"

text \<open>
  A batch of predictions of shape \<open>(H, W)\<close> and as many masks of shape \<open>(H, W, 1)\<close>, with
  \<open>H, W > 0\<close>.
\<close>

definition conforming :: "nat \<Rightarrow> nat \<Rightarrow> 'f list list list \<Rightarrow> bool list list list list \<Rightarrow> bool" where
  "conforming H W y_pred y_true =
     (0 < H \<and> 0 < W \<and> length y_true = length y_pred
      \<and> list_all (\<lambda>m. length m = H \<and> list_all (\<lambda>row. length row = W) m) y_pred
      \<and> list_all (\<lambda>m. length m = H \<and> list_all (\<lambda>row. length row = W \<and> list_all (\<lambda>px. length px = 1) row) m) y_true)"

subsection \<open>Image and mask of one size\<close>

text \<open>The image and the mask have the same height and width, and the mask has one channel.\<close>

definition paired :: "'a image \<Rightarrow> 'a image \<Rightarrow> bool" where
  "paired img msk =
     list_all2 (\<lambda>r1 r2. length r1 = length r2 \<and> list_all (\<lambda>px. length px = 1) r2) img msk"

subsection \<open>The local variables of the \<open>try\<close> block\<close>

text \<open>Both \<open>coord\<close> and \<open>threads\<close> are bound.\<close>

definition both_bound :: "st \<Rightarrow> bool" where
  "both_bound s = (coord_bound s \<and> threads_bound s)"

section \<open>Concrete inputs\<close>

text \<open>The concrete inputs at which the statements below are instantiated and evaluated.\<close>

definition ex_X :: tensor where
  "ex_X = Placeholder Float32 [None, Some 16, Some 16, Some 3] ''X''"

definition ex_mode :: tensor where
  "ex_mode = Placeholder Boolean [] ''mode''"

definition ex_net :: tensor where
  "ex_net =
     Act Relu
       (BatchNorm
          (Conv2D
             (Act Relu
                (BatchNorm (Conv2D ex_X 8 (3, 3) None Same ''layer1/conv_1'') ex_mode ''layer1/bn_1'')
                ''layer1/relu1_1'')
             8 (3, 3) None Same ''layer1/conv_2'')
          ex_mode ''layer1/bn_2'')
       ''layer1/relu1_2''"

definition ex_pool :: tensor where
  "ex_pool = MaxPool2D ex_net (2, 2) (2, 2) ''layer1/pool_1''"

text \<open>The flags \<open>read_flags\<close> returns when the command line gives none.\<close>

definition read_flags_defaults :: flags where
  "read_flags_defaults =
     \<lparr>data_root = ''../data/data_256_subsample_4x/'', train = ''./train.csv'', test = ''./test.csv'',
      epochs = 8, learning_rate = 0.001, batch_size = 16, channels = 5, height = 256, w = 256,
      logdir = ''logdir'', ckdir = ''models''\<rparr>"

text \<open>The same flags with \<open>--height 100 -w 100\<close>.\<close>

definition flags_100 :: flags where
  "flags_100 = read_flags_defaults\<lparr>height := 100, w := 100\<rparr>"

text \<open>
  A batch of one 1x2 prediction, all ones, and its mask: the first pixel set, the second
  not; and the same two as exact numbers, flattened.
\<close>

definition ex_pred :: "f32 list list list" where
  "ex_pred = [[[Finite False 1, Finite False 1]]]"

definition ex_true :: "bool list list list list" where
  "ex_true = [[[[True], [False]]]]"

definition ex_pred_exact :: "rat list list" where
  "ex_pred_exact = [[1, 1]]"

definition ex_true_exact :: "rat list list" where
  "ex_true_exact = [[1, 0]]"

text \<open>
  A batch of one 1x2 prediction whose two elements are \<open>2 ^ 127\<close>, so that their sum
  overflows, and a mask with both pixels set.
\<close>

definition ex_pred_large :: "f32 list list list" where
  "ex_pred_large = [[[Finite False (2 ^ 127), Finite False (2 ^ 127)]]]"

definition ex_true_full :: "bool list list list list" where
  "ex_true_full = [[[[True], [True]]]]"

text \<open>The flags for a 16x16 input with two classes, and one fed batch of that size.\<close>

definition flags_16 :: flags where
  "flags_16 = read_flags_defaults\<lparr>height := 16, w := 16, channels := 2\<rparr>"

definition ex_pv :: "rat list list list list" where
  "ex_pv = [replicate 16 (replicate 16 [1 / 4, 3 / 4])]"

definition ex_yv :: "rat list list list list" where
  "ex_yv = [replicate 16 (replicate 16 [1])]"

text \<open>
  A 2x2 image of three channels and its mask; a world whose brightness adjustment adds the
  delta and whose hue adjustment scales by one plus the delta; and a run that draws both
  flips, the largest brightness delta and a hue delta of zero.
\<close>

definition ex_image :: "real image" where
  "ex_image = [[[1, 2, 3], [4, 5, 6]], [[7, 8, 9], [10, 11, 12]]]"

definition ex_mask :: "real image" where
  "ex_mask = [[[0], [255]], [[255], [0]]]"

definition ex_world :: world where
  "ex_world =
     \<lparr>decode_csv = (\<lambda>line defaults. if line = ''a.png,b.png'' then Some [''a.png'', ''b.png''] else None),
      read_file = (\<lambda>path. if path = ''d/a.png'' then Some ''A'' else if path = ''d/b.png'' then Some ''B'' else None),
      adjust_brightness = (\<lambda>t delta. Some (map (map (map (\<lambda>v. v + delta))) t)),
      adjust_hue = (\<lambda>t delta. Some (map (map (map (\<lambda>v. v * (1 + delta)))) t))\<rparr>"

definition ex_draws :: draws where
  "ex_draws = \<lparr>flip_lr = True, flip_ud = True, u_brightness = 1, u_hue = 1 / 2\<rparr>"

text \<open>
  A CSV file of a header and one record, and a decoder that knows the two files of
  \<open>ex_world\<close>: a 1x1 image of the requested number of channels.
\<close>

definition ex_csv :: "string list" where
  "ex_csv = [''image,mask'', ''a.png,b.png'']"

definition ex_decoder :: "string \<Rightarrow> nat \<Rightarrow> nat image option" where
  "ex_decoder file_bytes n =
     (if file_bytes = ''A'' \<and> n = 3 then Some [[[10, 20, 30]]]
      else if file_bytes = ''B'' \<and> n = 1 then Some [[[255]]]
      else None)"

text \<open>
  A run in which the checkpoint directory does not exist, so that \<open>os.rmdir\<close> (the second
  call) raises \<open>FileNotFoundError\<close>, and every other call returns.
\<close>

definition env_missing_dir :: env where
  "env_missing_dir =
     \<lparr>path_exists = False, checkpoint_exists = False, latest_checkpoint = None,
      raises = (\<lambda>n. if n = 1 then Some FileNotFoundError else None)\<rparr>"

text \<open>
  A run in which the checkpoint path is a symbolic link to nothing. \<open>os.path.exists\<close>
  follows the link and answers false; \<open>os.rmdir\<close> raises \<open>NotADirectoryError\<close>, a subclass
  of \<open>OSError\<close> that is written \<open>OSError\<close> here; \<open>os.mkdir\<close> finds the link and raises
  \<open>FileExistsError\<close>.
\<close>

definition env_dangling_link :: env where
  "env_dangling_link =
     \<lparr>path_exists = False, checkpoint_exists = False, latest_checkpoint = None,
      raises = (\<lambda>n. if n = 1 then Some OSError else if n = 2 then Some FileExistsError else None)\<rparr>"

text \<open>
  A run in which the checkpoint directory exists and holds no checkpoint.
  \<open>tf.train.checkpoint_exists\<close> looks for files that match its argument, and the path of
  an existing directory matches itself, so it answers true; \<open>tf.train.latest_checkpoint\<close>
  finds no checkpoint state and answers \<open>None\<close>. Every call returns.
\<close>

definition env_empty_dir :: env where
  "env_empty_dir =
     \<lparr>path_exists = True, checkpoint_exists = True, latest_checkpoint = None,
      raises = (\<lambda>n. None)\<rparr>"

text \<open>
  A run in which \<open>tf.train.start_queue_runners\<close>, the third call of the \<open>try\<close> block,
  raises, and every other call returns.
\<close>

definition env_runners_fail :: env where
  "env_runners_fail =
     \<lparr>path_exists = False, checkpoint_exists = False, latest_checkpoint = None,
      raises = (\<lambda>n. if n = 2 then Some (OtherError ''RuntimeError'') else None)\<rparr>"

text \<open>
  A run in which the first row of the training CSV names a file that does not exist. The
  reader thread fails with \<open>NotFoundError\<close> and closes the queue, so the first
  \<open>sess.run\<close> of the batch, the fourth call of the \<open>try\<close> block, raises \<open>OutOfRangeError\<close>;
  \<open>coord.request_stop\<close> returns, and \<open>coord.join\<close>, the sixth call, raises the error of the
  thread again.
\<close>

definition env_reader_fails :: env where
  "env_reader_fails =
     \<lparr>path_exists = False, checkpoint_exists = False, latest_checkpoint = None,
      raises = (\<lambda>n. if n = 3 then Some (OtherError ''OutOfRangeError'')
                    else if n = 5 then Some (OtherError ''NotFoundError'') else None)\<rparr>"

text \<open>
  A run in which every call returns, and the flags for a single epoch and a one-channel
  prediction, as the one-channel masks need.
\<close>

definition env_all_return :: env where
  "env_all_return =
     \<lparr>path_exists = False, checkpoint_exists = False, latest_checkpoint = None,
      raises = (\<lambda>n. None)\<rparr>"

definition flags_one_epoch :: flags where
  "flags_one_epoch = read_flags_defaults\<lparr>epochs := 1, channels := 1\<rparr>"
section \<open>Properties\<close>

subsection \<open>Static shapes of the network\<close>

lemma checked_Some: "checked t = Some t' \<longleftrightarrow> t' = t \<and> shape_of t \<noteq> None"
  by (auto simp: checked_def split: option.splits)

lemma merge_dim_same: "merge_dim d d = Some d"
  by (cases d) auto

lemma upt4: "[0..<4] = [0, 1, 2, 3]"
  by (simp add: upt_rec)

lemma concat2_last4:
  "concat2 3 [b, Some h, Some wd, Some c1] [b, Some h, Some wd, Some c2] = Some [b, Some h, Some wd, Some (c1 + c2)]"
  by (simp add: concat2_def upt4 merge_dim_same)

lemma concat_shape_last4:
  "concat_shape (- 1) [[b, Some h, Some wd, Some c1], [b, Some h, Some wd, Some c2]] = Some [b, Some h, Some wd, Some (c1 + c2)]"
  by (simp add: concat_shape_def norm_axis_def concat2_last4)

lemma conv_bn_act_shape:
  assumes "shape_of t = Some [b, Some h, Some wd, Some c]" "shape_of tr \<noteq> None" "0 < F"
  shows "\<exists>net. conv_bn_act tr a sc nm t i F = Some net \<and> shape_of net = Some [b, Some h, Some wd, Some (nat F)]"
  using assms
  by (auto simp: conv_bn_act_def tf_conv2d_def tf_batch_normalization_def tf_activation_def checked_def)

lemma conv_layers_shape2:
  assumes "shape_of t = Some [b, Some h, Some wd, Some c]" "shape_of tr \<noteq> None" "0 < F1" "0 < F2"
  shows "\<exists>net. conv_layers tr a sc nm t i [F1, F2] = Some net \<and> shape_of net = Some [b, Some h, Some wd, Some (nat F2)]"
proof -
  from conv_bn_act_shape[OF assms(1,2,3)] obtain n1 where
    n1: "conv_bn_act tr a sc nm t i F1 = Some n1" "shape_of n1 = Some [b, Some h, Some wd, Some (nat F1)]"
    by blast
  from conv_bn_act_shape[OF n1(2) assms(2,4)] obtain n2 where
    n2: "conv_bn_act tr a sc nm n1 (Suc i) F2 = Some n2" "shape_of n2 = Some [b, Some h, Some wd, Some (nat F2)]"
    by blast
  show ?thesis using n1 n2 by simp
qed

lemma ccp_nopool_shape:
  assumes "shape_of t = Some [b, Some h, Some wd, Some c]" "shape_of tr \<noteq> None" "0 < F1" "0 < F2"
  shows "\<exists>net. single (conv_conv_pool t [F1, F2] tr nm False a) = Some net \<and> shape_of net = Some [b, Some h, Some wd, Some (nat F2)]"
proof -
  from conv_layers_shape2[OF assms] obtain net where
    "conv_layers tr a (''layer'' @ str_nat nm) nm t 0 [F1, F2] = Some net" "shape_of net = Some [b, Some h, Some wd, Some (nat F2)]"
    by blast
  then show ?thesis by (simp add: conv_conv_pool_def single_def)
qed

lemma ccp_pool_shape:
  assumes "shape_of t = Some [b, Some (2 * h), Some (2 * wd), Some c]" "shape_of tr \<noteq> None" "0 < F1" "0 < F2" "0 < h" "0 < wd"
  shows "\<exists>net p. unpack2 (conv_conv_pool t [F1, F2] tr nm True a) = Some (net, p)
     \<and> shape_of net = Some [b, Some (2 * h), Some (2 * wd), Some (nat F2)]
     \<and> shape_of p = Some [b, Some h, Some wd, Some (nat F2)]"
proof -
  from conv_layers_shape2[OF assms(1-4)] obtain net where
    net: "conv_layers tr a (''layer'' @ str_nat nm) nm t 0 [F1, F2] = Some net" "shape_of net = Some [b, Some (2 * h), Some (2 * wd), Some (nat F2)]"
    by blast
  have "(2 * h - 2) div 2 + 1 = h" "(2 * wd - 2) div 2 + 1 = wd" using assms(5,6) by auto
  then show ?thesis using net assms(5,6)
    by (simp add: conv_conv_pool_def unpack2_def tf_max_pooling2d_def checked_def)
qed

lemma upsample_concat_shape:
  assumes "shape_of lo = Some [b, Some h, Some wd, Some c1]" "shape_of skip = Some [b, Some (2 * h), Some (2 * wd), Some c2]"
  shows "\<exists>up. upsample_concat lo skip nm = Some up \<and> shape_of up = Some [b, Some (2 * h), Some (2 * wd), Some (c1 + c2)]"
  using assms
  by (simp add: upsample_concat_def upsampling_2D_def tf_resize_nearest_neighbor_def tf_concat_def checked_def
      concat_shape_last4 mult.commute)


lemma make_unet_shape:
  assumes X: "shape_of X = Some [b, Some (16 * k), Some (16 * j), Some c]"
    and tr: "shape_of training \<noteq> None" and k: "0 < k" and j: "0 < j" and cl: "0 < classes"
  shows "\<exists>out. make_unet X training act classes = Some out
           \<and> shape_of out = Some [b, Some (16 * k), Some (16 * j), Some (nat classes)]"
proof -
  have e16: "16 * k = 2 * (8 * k)" "16 * j = 2 * (8 * j)"
    and e8: "8 * k = 2 * (4 * k)" "8 * j = 2 * (4 * j)"
    and e4: "4 * k = 2 * (2 * k)" "4 * j = 2 * (2 * j)" by simp_all
  have pos: "0 < 8 * k" "0 < 8 * j" "0 < 4 * k" "0 < 4 * j" "0 < 2 * k" "0 < 2 * j"
    using k j by simp_all
  obtain n0 where n0: "checked (SubConst (DivConst X 127.5) 1) = Some n0"
      "shape_of n0 = Some [b, Some (16 * k), Some (16 * j), Some c]"
    using X by (simp add: checked_def)
  obtain n1 where n1: "tf_conv2d n0 3 (1, 1) None Valid ''color_space_adjust'' = Some n1"
      "shape_of n1 = Some [b, Some (2 * (8 * k)), Some (2 * (8 * j)), Some 3]"
    using n0(2) k j by (simp add: tf_conv2d_def checked_def)
  obtain conv1 pool1 where c1: "unpack2 (conv_conv_pool n1 [8, 8] training 1 True Relu) = Some (conv1, pool1)"
      "shape_of conv1 = Some [b, Some (2 * (8 * k)), Some (2 * (8 * j)), Some 8]"
      "shape_of pool1 = Some [b, Some (8 * k), Some (8 * j), Some 8]"
    using ccp_pool_shape[OF n1(2) tr _ _ pos(1,2), of 8 8 1 Relu] by auto
  obtain conv2 pool2 where c2: "unpack2 (conv_conv_pool pool1 [16, 16] training 2 True Relu) = Some (conv2, pool2)"
      "shape_of conv2 = Some [b, Some (2 * (4 * k)), Some (2 * (4 * j)), Some 16]"
      "shape_of pool2 = Some [b, Some (4 * k), Some (4 * j), Some 16]"
    using ccp_pool_shape[OF c1(3)[unfolded e8] tr _ _ pos(3,4), of 16 16 2 Relu] by auto
  obtain conv3 pool3 where c3: "unpack2 (conv_conv_pool pool2 [32, 32] training 3 True Relu) = Some (conv3, pool3)"
      "shape_of conv3 = Some [b, Some (2 * (2 * k)), Some (2 * (2 * j)), Some 32]"
      "shape_of pool3 = Some [b, Some (2 * k), Some (2 * j), Some 32]"
    using ccp_pool_shape[OF c2(3)[unfolded e4] tr _ _ pos(5,6), of 32 32 3 Relu] by auto
  obtain conv4 pool4 where c4: "unpack2 (conv_conv_pool pool3 [64, 64] training 4 True Relu) = Some (conv4, pool4)"
      "shape_of conv4 = Some [b, Some (2 * k), Some (2 * j), Some 64]"
      "shape_of pool4 = Some [b, Some k, Some j, Some 64]"
    using ccp_pool_shape[OF c3(3) tr _ _ k j, of 64 64 4 Relu] by auto
  obtain conv5 where c5: "single (conv_conv_pool pool4 [128, 128] training 5 False Relu) = Some conv5"
      "shape_of conv5 = Some [b, Some k, Some j, Some 128]"
    using ccp_nopool_shape[OF c4(3) tr, of 128 128 5 Relu] by auto
  obtain up6 where u6: "upsample_concat conv5 conv4 6 = Some up6"
      "shape_of up6 = Some [b, Some (2 * k), Some (2 * j), Some (128 + 64)]"
    using upsample_concat_shape[OF c5(2) c4(2)] by blast
  obtain conv6 where c6: "single (conv_conv_pool up6 [64, 64] training 6 False Relu) = Some conv6"
      "shape_of conv6 = Some [b, Some (2 * k), Some (2 * j), Some 64]"
    using ccp_nopool_shape[OF u6(2) tr, of 64 64 6 Relu] by auto
  obtain up7 where u7: "upsample_concat conv6 conv3 7 = Some up7"
      "shape_of up7 = Some [b, Some (2 * (2 * k)), Some (2 * (2 * j)), Some (64 + 32)]"
    using upsample_concat_shape[OF c6(2) c3(2)] by blast
  obtain conv7 where c7: "single (conv_conv_pool up7 [32, 32] training 7 False Relu) = Some conv7"
      "shape_of conv7 = Some [b, Some (4 * k), Some (4 * j), Some 32]"
    using ccp_nopool_shape[OF u7(2) tr, of 32 32 7 Relu] by auto
  obtain up8 where u8: "upsample_concat conv7 conv2 8 = Some up8"
      "shape_of up8 = Some [b, Some (2 * (4 * k)), Some (2 * (4 * j)), Some (32 + 16)]"
    using upsample_concat_shape[OF c7(2) c2(2)] by blast
  obtain conv8 where c8: "single (conv_conv_pool up8 [16, 16] training 8 False Relu) = Some conv8"
      "shape_of conv8 = Some [b, Some (8 * k), Some (8 * j), Some 16]"
    using ccp_nopool_shape[OF u8(2) tr, of 16 16 8 Relu] by auto
  obtain up9 where u9: "upsample_concat conv8 conv1 9 = Some up9"
      "shape_of up9 = Some [b, Some (2 * (8 * k)), Some (2 * (8 * j)), Some (16 + 8)]"
    using upsample_concat_shape[OF c8(2) c1(2)] by blast
  obtain conv9 where c9: "single (conv_conv_pool up9 [8, 8] training 9 False Relu) = Some conv9"
      "shape_of conv9 = Some [b, Some (16 * k), Some (16 * j), Some 8]"
    using ccp_nopool_shape[OF u9(2) tr, of 8 8 9 Relu] by auto
  have fin: "tf_conv2d conv9 classes (1, 1) (Some act) Same ''final''
      = Some (Conv2D conv9 classes (1, 1) (Some act) Same ''final'')"
    "shape_of (Conv2D conv9 classes (1, 1) (Some act) Same ''final'')
      = Some [b, Some (16 * k), Some (16 * j), Some (nat classes)]"
    using c9(2) cl by (simp_all add: tf_conv2d_def checked_def)
  have "make_unet X training act classes = Some (Conv2D conv9 classes (1, 1) (Some act) Same ''final'')"
    unfolding make_unet_def
    by (simp only: n0(1) n1(1) c1(1) c2(1) c3(1) c4(1) c5(1) u6(1) c6(1) u7(1) c7(1) u8(1) c8(1) u9(1) c9(1) fin(1)
        Option.bind.simps prod.case)
  then show ?thesis using fin(2) by simp
qed

subsection \<open>The layers of a block and the nodes of \<open>make_unet\<close>\<close>

lemma peel_layers_append:
  "peel_layers a tr (xs @ ys) t = (case peel_layers a tr xs t of None \<Rightarrow> None | Some m \<Rightarrow> peel_layers a tr ys m)"
proof (induction xs arbitrary: t)
  case Nil
  show ?case by simp
next
  case (Cons F xs)
  show ?case
    by (simp add: Cons.IH split: tensor.splits option.splits)
qed

lemma conv_bn_act_Some:
  "conv_bn_act tr a sc nm t i F = Some out \<Longrightarrow>
     out = Act a (BatchNorm (Conv2D t F (3, 3) None Same (scoped sc (''conv_'' @ str_nat (i + 1))))
                    tr (scoped sc (''bn_'' @ str_nat (i + 1))))
             (scoped sc (''relu'' @ str_nat nm @ ''_'' @ str_nat (i + 1)))"
  by (auto simp: conv_bn_act_def tf_conv2d_def tf_batch_normalization_def tf_activation_def
      checked_Some Option.bind_eq_Some_conv)

lemma conv_layers_chain:
  "conv_layers tr a sc nm t i Fs = Some out \<Longrightarrow> conv_bn_act_chain a tr t Fs out"
proof (induction Fs arbitrary: t i)
  case Nil
  then show ?case by (simp add: conv_bn_act_chain_def)
next
  case (Cons F Fs)
  from Cons.prems obtain t1 where t1: "conv_bn_act tr a sc nm t i F = Some t1"
    and rest: "conv_layers tr a sc nm t1 (Suc i) Fs = Some out"
    by (auto split: option.splits)
  from Cons.IH[OF rest] have "peel_layers a tr (rev Fs) out = Some t1"
    by (simp add: conv_bn_act_chain_def)
  moreover have "peel_layers a tr [F] t1 = Some t"
    using conv_bn_act_Some[OF t1] by simp
  ultimately show ?case
    by (simp add: conv_bn_act_chain_def peel_layers_append)
qed

lemma conv_conv_pool_Some:
  assumes "conv_conv_pool inp Fs tr nm pool a = Some (net, p)"
  shows "conv_bn_act_chain a tr inp Fs net"
    and "pool \<Longrightarrow> p = Some (MaxPool2D net (2, 2) (2, 2) (scoped (''layer'' @ str_nat nm) (''pool_'' @ str_nat nm)))"
    and "\<not> pool \<Longrightarrow> p = None"
  using assms
  by (auto simp: conv_conv_pool_def Let_def Option.bind_eq_Some_conv tf_max_pooling2d_def checked_Some
      conv_layers_chain split: if_splits)

lemma unpack2_Some:
  "unpack2 (conv_conv_pool inp Fs tr nm True a) = Some (net, pl) \<Longrightarrow>
     conv_bn_act_chain a tr inp Fs net \<and> is_pool_of pl net"
  using conv_conv_pool_Some(1,2)[of inp Fs tr nm True a net "Some pl"]
  by (auto simp: unpack2_def is_pool_of_def split: option.splits prod.splits)

lemma single_Some:
  "single (conv_conv_pool inp Fs tr nm False a) = Some net \<Longrightarrow> conv_bn_act_chain a tr inp Fs net"
  using conv_conv_pool_Some(1)[of inp Fs tr nm False a net None]
  by (auto simp: single_def split: option.splits prod.splits)

lemma upsample_concat_Some:
  "upsample_concat lo skip nm = Some up \<Longrightarrow> is_upsample2_concat up lo skip"
  by (auto simp: upsample_concat_def upsampling_2D_def Option.bind_eq_Some_conv tf_resize_nearest_neighbor_def
      tf_concat_def checked_Some is_upsample2_concat_def Let_def mult.commute
      split: option.splits list.splits)

lemma make_unet_Some:
  assumes "make_unet X training act classes = Some out"
  shows "\<exists>net conv1 pool1 conv2 pool2 conv3 pool3 conv4 pool4 conv5 up6 conv6 up7 conv7 up8 conv8 up9 conv9.
       net = Conv2D (SubConst (DivConst X 127.5) 1) 3 (1, 1) None Valid ''color_space_adjust''
     \<and> conv_bn_act_chain Relu training net [8, 8] conv1 \<and> is_pool_of pool1 conv1
     \<and> conv_bn_act_chain Relu training pool1 [16, 16] conv2 \<and> is_pool_of pool2 conv2
     \<and> conv_bn_act_chain Relu training pool2 [32, 32] conv3 \<and> is_pool_of pool3 conv3
     \<and> conv_bn_act_chain Relu training pool3 [64, 64] conv4 \<and> is_pool_of pool4 conv4
     \<and> conv_bn_act_chain Relu training pool4 [128, 128] conv5
     \<and> is_upsample2_concat up6 conv5 conv4 \<and> conv_bn_act_chain Relu training up6 [64, 64] conv6
     \<and> is_upsample2_concat up7 conv6 conv3 \<and> conv_bn_act_chain Relu training up7 [32, 32] conv7
     \<and> is_upsample2_concat up8 conv7 conv2 \<and> conv_bn_act_chain Relu training up8 [16, 16] conv8
     \<and> is_upsample2_concat up9 conv8 conv1 \<and> conv_bn_act_chain Relu training up9 [8, 8] conv9
     \<and> out = Conv2D conv9 classes (1, 1) (Some act) Same ''final''"
proof -
  from assms obtain n0 net conv1 pool1 conv2 pool2 conv3 pool3 conv4 pool4 conv5 up6 conv6 up7 conv7
      up8 conv8 up9 conv9 where
    n0: "checked (SubConst (DivConst X 127.5) 1) = Some n0"
    and net: "tf_conv2d n0 3 (1, 1) None Valid ''color_space_adjust'' = Some net"
    and c1: "unpack2 (conv_conv_pool net [8, 8] training 1 True Relu) = Some (conv1, pool1)"
    and c2: "unpack2 (conv_conv_pool pool1 [16, 16] training 2 True Relu) = Some (conv2, pool2)"
    and c3: "unpack2 (conv_conv_pool pool2 [32, 32] training 3 True Relu) = Some (conv3, pool3)"
    and c4: "unpack2 (conv_conv_pool pool3 [64, 64] training 4 True Relu) = Some (conv4, pool4)"
    and c5: "single (conv_conv_pool pool4 [128, 128] training 5 False Relu) = Some conv5"
    and u6: "upsample_concat conv5 conv4 6 = Some up6"
    and c6: "single (conv_conv_pool up6 [64, 64] training 6 False Relu) = Some conv6"
    and u7: "upsample_concat conv6 conv3 7 = Some up7"
    and c7: "single (conv_conv_pool up7 [32, 32] training 7 False Relu) = Some conv7"
    and u8: "upsample_concat conv7 conv2 8 = Some up8"
    and c8: "single (conv_conv_pool up8 [16, 16] training 8 False Relu) = Some conv8"
    and u9: "upsample_concat conv8 conv1 9 = Some up9"
    and c9: "single (conv_conv_pool up9 [8, 8] training 9 False Relu) = Some conv9"
    and fin: "tf_conv2d conv9 classes (1, 1) (Some act) Same ''final'' = Some out"
    unfolding make_unet_def
    by (simp only: Option.bind_eq_Some_conv split_paired_Ex prod.case) blast
  have "n0 = SubConst (DivConst X 127.5) 1" using n0 by (simp only: checked_Some)
  with net have a: "net = Conv2D (SubConst (DivConst X 127.5) 1) 3 (1, 1) None Valid ''color_space_adjust''"
    by (simp only: tf_conv2d_def checked_Some)
  have z: "out = Conv2D conv9 classes (1, 1) (Some act) Same ''final''"
    using fin by (simp only: tf_conv2d_def checked_Some)
  show ?thesis
    using a z unpack2_Some[OF c1] unpack2_Some[OF c2] unpack2_Some[OF c3] unpack2_Some[OF c4]
      single_Some[OF c5] single_Some[OF c6] single_Some[OF c7] single_Some[OF c8] single_Some[OF c9]
      upsample_concat_Some[OF u6] upsample_concat_Some[OF u7] upsample_concat_Some[OF u8]
      upsample_concat_Some[OF u9]
    by blast
qed

subsection \<open>The graph of \<open>main\<close>\<close>

lemma make_unet_final:
  assumes "make_unet X training act classes = Some out"
  shows "\<exists>c9. out = Conv2D c9 classes (1, 1) (Some act) Same ''final''"
  using make_unet_Some[OF assms] by blast

lemma tf_placeholder_Some:
  "list_all (\<lambda>d. case d of None \<Rightarrow> True | Some i \<Rightarrow> 0 \<le> i) dims \<Longrightarrow>
     tf_placeholder dt dims n = Some (Placeholder dt (map (map_option nat) dims) n)"
  by (simp add: tf_placeholder_def)

lemma main_graph_Some:
  assumes "main_graph fl = Some g"
  shows "g_activation g = select_activation fl"
    and "make_unet (g_X g) (g_mode g) (select_activation fl) (channels fl) = Some (g_pred g)"
  using assms
  by (auto simp: main_graph_def Option.bind_eq_Some_conv Let_def)

lemma main_graph_shape:
  assumes h: "0 < height fl" "16 dvd height fl" and wd: "0 < w fl" "16 dvd w fl" and c: "1 \<le> channels fl"
  shows "\<exists>g. main_graph fl = Some g
           \<and> shape_of (g_X g) = Some [None, Some (nat (height fl)), Some (nat (w fl)), Some 3]
           \<and> shape_of (g_pred g) = Some [None, Some (nat (height fl)), Some (nat (w fl)), Some (nat (channels fl))]"
proof -
  from h obtain q where q: "height fl = 16 * q" "0 < q"
    by (auto simp: dvd_def zero_less_mult_iff)
  from wd obtain r where r: "w fl = 16 * r" "0 < r"
    by (auto simp: dvd_def zero_less_mult_iff)
  define k where "k = nat q"
  define j where "j = nat r"
  have k: "nat (height fl) = 16 * k" "0 < k"
    using q by (simp_all add: k_def nat_mult_distrib)
  have j: "nat (w fl) = 16 * j" "0 < j"
    using r by (simp_all add: j_def nat_mult_distrib)
  let ?X = "Placeholder Float32 [None, Some (nat (height fl)), Some (nat (w fl)), Some 3] ''X''"
  let ?y = "Placeholder Float32 [None, Some (nat (height fl)), Some (nat (w fl)), Some 1] ''y''"
  let ?m = "Placeholder Boolean [] ''mode''"
  have X: "tf_placeholder Float32 [None, Some (height fl), Some (w fl), Some 3] ''X'' = Some ?X"
    using h wd by (simp add: tf_placeholder_def)
  have y: "tf_placeholder Float32 [None, Some (height fl), Some (w fl), Some 1] ''y'' = Some ?y"
    using h wd by (simp add: tf_placeholder_def)
  have m: "tf_placeholder Boolean [] ''mode'' = Some ?m"
    by (simp add: tf_placeholder_def)
  have sX: "shape_of ?X = Some [None, Some (16 * k), Some (16 * j), Some 3]"
    using k j by simp
  have sm: "shape_of ?m \<noteq> None" by simp
  from make_unet_shape[OF sX sm k(2) j(2), of "channels fl" "select_activation fl"] c
  obtain out where out: "make_unet ?X ?m (select_activation fl) (channels fl) = Some out"
    "shape_of out = Some [None, Some (16 * k), Some (16 * j), Some (nat (channels fl))]"
    by auto
  have "main_graph fl = Some \<lparr>g_X = ?X, g_y = ?y, g_mode = ?m, g_activation = select_activation fl, g_pred = out\<rparr>"
    unfolding main_graph_def
    by (simp only: X y m out(1) Option.bind.simps Let_def)
  then show ?thesis using out(2) k j by simp
qed

lemma make_unet_has_shape:
  assumes "make_unet X training act classes = Some out"
  shows "shape_of out \<noteq> None"
proof -
  from make_unet_Some[OF assms] obtain c9 where
    "out = Conv2D c9 classes (1, 1) (Some act) Same ''final''" by blast
  moreover from assms have "\<exists>c. tf_conv2d c classes (1, 1) (Some act) Same ''final'' = Some out"
    unfolding make_unet_def
    by (simp only: Option.bind_eq_Some_conv split_paired_Ex prod.case) blast
  ultimately show ?thesis by (auto simp: tf_conv2d_def checked_Some)
qed

subsection \<open>Reshaping, broadcasting and the value of \<open>IOU_\<close>\<close>

lemma chunks_concat:
  "list_all (\<lambda>r. length r = k) rows \<Longrightarrow> chunks (length rows) k (concat rows) = rows"
  by (induction rows) auto

lemma length_concat_uniform:
  "list_all (\<lambda>r. length r = k) rows \<Longrightarrow> length (concat rows) = length rows * k"
  by (induction rows) auto

lemma reshape_rows_concat:
  assumes "0 < k" "list_all (\<lambda>r. length r = k) rows"
  shows "reshape_rows k (concat rows) = Some rows"
  using assms
  by (simp add: reshape_rows_def length_concat_uniform chunks_concat)

lemma broadcast_same: "length xs = length ys \<Longrightarrow> broadcast f xs ys = Some (map2 f xs ys)"
  by (simp add: broadcast_def)

lemma map2_dice:
  "length P = length T \<Longrightarrow>
     map2 (fdiv ar)
       (map (\<lambda>r. fadd ar (fmul ar (fconst ar 2) (fsum ar r)) (fconst ar (1 / 10000000)))
            (map2 (map2 (fmul ar)) P T))
       (map (\<lambda>x. fadd ar x (fconst ar (1 / 10000000)))
            (map2 (fadd ar) (map (fsum ar) P) (map (fsum ar) T)))
     = map2 (dice ar) P T"
  by (induction P T rule: list_induct2) (auto simp: dice_def)

lemma flat_pred_rows:
  assumes "list_all (\<lambda>m. length m = H \<and> list_all (\<lambda>row. length row = W) m) y_pred"
  shows "list_all (\<lambda>r. length r = H * W) (flat_pred y_pred)"
proof -
  have a: "length (concat m) = length m * W"
    if "list_all (\<lambda>row. length row = W) m" for m :: "'a list list"
    using that by (induction m) auto
  show ?thesis
    unfolding list_all_iff flat_pred_def
  proof (intro ballI)
    fix r assume "r \<in> set (map concat y_pred)"
    then obtain m where m: "m \<in> set y_pred" "r = concat m" by auto
    from assms m(1) have "length m = H" and "list_all (\<lambda>row. length row = W) m"
      by (auto simp: list_all_iff)
    with a[of m] m(2) show "length r = H * W" by simp
  qed
qed

lemma flat_true_rows:
  fixes y_true :: "bool list list list list"
  assumes "list_all (\<lambda>m. length m = H \<and> list_all (\<lambda>row. length row = W \<and> list_all (\<lambda>px. length px = 1) row) m) y_true"
  shows "list_all (\<lambda>r. length r = H * W) (map (\<lambda>m. concat (concat m)) y_true)"
proof -
  have b: "length (concat row) = length row"
    if "list_all (\<lambda>px. length px = 1) row" for row :: "bool list list"
    using that by (induction row) auto
  have a: "length (concat (concat m)) = length m * W"
    if "list_all (\<lambda>row. length row = W \<and> list_all (\<lambda>px. length px = 1) row) m" for m :: "bool list list list"
    using that b by (induction m) auto
  show ?thesis
    unfolding list_all_iff
  proof (intro ballI)
    fix r assume "r \<in> set (map (\<lambda>m. concat (concat m)) y_true)"
    then obtain m where m: "m \<in> set y_true" "r = concat (concat m)" by auto
    from assms m(1) have "length m = H"
      and "list_all (\<lambda>row. length row = W \<and> list_all (\<lambda>px. length px = 1) row) m"
      by (auto simp: list_all_iff)
    with a[of m] m(2) show "length r = H * W" by simp
  qed
qed

lemma concat_concat_map: "concat (concat xss) = concat (map concat xss)"
  by (induction xss) auto

lemma IOU_fun_dice:
  assumes "conforming H W y_pred y_true"
  shows "IOU_fun ar [b, Some H, Some W] y_pred y_true
           = Some (fmean ar (map2 (dice ar) (flat_pred y_pred) (flat_true ar y_true)))"
proof -
  let ?P = "flat_pred y_pred"
  let ?B = "map (\<lambda>m. concat (concat m)) y_true"
  let ?T = "flat_true ar y_true"
  from assms have HW: "0 < H * W" and len: "length y_true = length y_pred"
    and p: "list_all (\<lambda>m. length m = H \<and> list_all (\<lambda>row. length row = W) m) y_pred"
    and t: "list_all (\<lambda>m. length m = H \<and> list_all (\<lambda>row. length row = W \<and> list_all (\<lambda>px. length px = 1) row) m) y_true"
    by (simp_all add: conforming_def)
  have T: "?T = map (map (fcast ar)) ?B" by (simp add: flat_true_def)
  have r1: "reshape_rows (H * W) (concat (concat y_pred)) = Some ?P"
    using reshape_rows_concat[OF HW flat_pred_rows[OF p]]
    by (simp add: flat_pred_def concat_concat_map)
  have r2: "reshape_rows (H * W) (concat (concat (concat y_true))) = Some ?B"
    using reshape_rows_concat[OF HW flat_true_rows[OF t]]
    by (simp add: concat_concat_map[of y_true] concat_concat_map[of "map concat y_true"] comp_def)
  have lPT: "length ?P = length ?T" by (simp add: flat_pred_def flat_true_def len)
  have b1: "broadcast (map2 (fmul ar)) ?P ?T = Some (map2 (map2 (fmul ar)) ?P ?T)"
    using lPT by (rule broadcast_same)
  have b2: "broadcast (fadd ar) (map (fsum ar) ?P) (map (fsum ar) ?T)
              = Some (map2 (fadd ar) (map (fsum ar) ?P) (map (fsum ar) ?T))"
    using lPT by (simp add: broadcast_same)
  let ?I = "map (\<lambda>r. fadd ar (fmul ar (fconst ar 2) (fsum ar r)) (fconst ar (1 / 10000000)))
                (map2 (map2 (fmul ar)) ?P ?T)"
  let ?D = "map (\<lambda>x. fadd ar x (fconst ar (1 / 10000000)))
                (map2 (fadd ar) (map (fsum ar) ?P) (map (fsum ar) ?T))"
  have lID: "length ?I = length ?D" using lPT by simp
  have b3: "broadcast (fdiv ar) ?I ?D = Some (map2 (fdiv ar) ?I ?D)"
    using lID by (rule broadcast_same)
  have th: "map2 (fdiv ar) ?I ?D = map2 (dice ar) ?P ?T"
    using map2_dice[OF lPT] .
  have hw: "take 2 (drop 1 [b, Some H, Some W]) = [Some H, Some W]" by simp
  show ?thesis
    unfolding IOU_fun_def
    by (simp only: hw list.case option.case r1 r2 Option.bind.simps Let_def T[symmetric] b1 b2 b3 th)
qed

text \<open>The example batch: every channel is there, and the sizes fit.\<close>

lemma channel_ex_pv:
  "cc < 2 \<Longrightarrow> channel cc ex_pv = Some [replicate 16 (replicate 16 ([1 / 4, 3 / 4] ! cc))]"
  by (simp add: channel_def ex_pv_def list_all_length)

lemma conforming_ex_yv:
  "conforming 16 16 [replicate 16 (replicate 16 (x::rat))] (equal_const ar ex_yv cc)"
  by (simp add: conforming_def equal_const_def ex_yv_def list_all_length)

lemma sparse_iou_ex_returns:
  "\<exists>v. sparse_iou ar [None, Some 16, Some 16, Some 2] ex_pv ex_yv = Some v"
  by (simp add: sparse_iou_def channel_ex_pv IOU_fun_dice[OF conforming_ex_yv]
      upt_rec[of 0] upt_rec[of 1] upt_rec[of "Suc 0"])
subsection \<open>Concatenation, slices and flips\<close>

lemma concat_rows_same: "length a = length b \<Longrightarrow> concat_rows a b = Some (map2 (@) a b)"
  by (simp add: concat_rows_def)

lemma those_concat_rows:
  "list_all2 (\<lambda>r1 r2. length r1 = length r2 \<and> P r2) xs ys \<Longrightarrow>
     those (map2 concat_rows xs ys) = Some (map2 (map2 (@)) xs ys)"
  by (induction xs ys rule: list_all2_induct) (simp_all add: concat_rows_same del: map_map)

lemma concat_last_paired:
  "paired img msk \<Longrightarrow> concat_last img msk = Some (map2 (map2 (@)) img msk)"
  unfolding paired_def concat_last_def
  by (simp add: those_concat_rows list_all2_lengthD del: map_map)

lemma butlast_row:
  "length r1 = length r2 \<Longrightarrow> list_all (\<lambda>px. length px = 1) r2 \<Longrightarrow> map butlast (map2 (@) r1 r2) = r1"
proof (induction r1 r2 rule: list_induct2)
  case Nil
  show ?case by simp
next
  case (Cons p r1 m r2)
  then obtain v where "m = [v]" by (cases m) auto
  with Cons show ?case by (simp del: map_map)
qed

lemma last_row:
  "length r1 = length r2 \<Longrightarrow> list_all (\<lambda>px. length px = 1) r2 \<Longrightarrow>
     map (\<lambda>px. drop (length px - 1) px) (map2 (@) r1 r2) = r2"
  by (induction r1 r2 rule: list_induct2) (simp_all del: map_map)

lemma all_but_last_paired:
  "paired img msk \<Longrightarrow> all_but_last_channel (map2 (map2 (@)) img msk) = img"
  unfolding paired_def all_but_last_channel_def
  by (induction img msk rule: list_all2_induct) (simp_all add: butlast_row del: map_map)

lemma last_channel_paired:
  "paired img msk \<Longrightarrow> last_channel (map2 (map2 (@)) img msk) = msk"
  unfolding paired_def last_channel_def
  by (induction img msk rule: list_all2_induct) (simp_all add: last_row[unfolded One_nat_def] del: map_map)

lemma all_but_last_flip:
  "all_but_last_channel (random_flip_up_down c t) = random_flip_up_down c (all_but_last_channel t)"
  by (simp add: all_but_last_channel_def random_flip_up_down_def flip_up_down_def rev_map)

lemma last_channel_flip:
  "last_channel (random_flip_up_down c t) = random_flip_up_down c (last_channel t)"
  by (simp add: last_channel_def random_flip_up_down_def flip_up_down_def rev_map)

lemma image_augmentation_eq:
  "image_augmentation wl d img msk =
     (case concat_last img msk of
        None \<Rightarrow> None
      | Some cat \<Rightarrow>
          (case random_brightness wl (u_brightness d)
                  (all_but_last_channel (random_flip_up_down (flip_ud d) cat)) 0.7 of
             None \<Rightarrow> None
           | Some b \<Rightarrow>
               (case random_hue wl (u_hue d) b 0.3 of
                  None \<Rightarrow> None
                | Some h \<Rightarrow> Some (h, last_channel (random_flip_up_down (flip_ud d) cat)))))"
  by (simp add: image_augmentation_def Let_def split: option.splits)

lemma image_augmentation_paired:
  assumes "paired img msk"
  shows "image_augmentation wl d img msk =
     (case random_brightness wl (u_brightness d) (random_flip_up_down (flip_ud d) img) 0.7 of
        None \<Rightarrow> None
      | Some b \<Rightarrow>
          (case random_hue wl (u_hue d) b 0.3 of
             None \<Rightarrow> None
           | Some h \<Rightarrow> Some (h, random_flip_up_down (flip_ud d) msk)))"
  by (simp add: image_augmentation_eq concat_last_paired[OF assms] all_but_last_flip last_channel_flip
      all_but_last_paired[OF assms] last_channel_paired[OF assms] split: option.splits)

subsection \<open>The line reader\<close>

lemma reader_records_tl: "reader_records (Suc 0) queue = concat (map tl queue)"
proof -
  have "drop (Suc 0) = (tl :: string list \<Rightarrow> string list)"
    by (rule ext) (simp add: drop_Suc)
  then show ?thesis by (simp add: reader_records_def)
qed

lemma text_line_reader_read_tl:
  "text_line_reader_read 1 queue k
     = (if k < length (concat (map tl queue)) then Some (concat (map tl queue) ! k) else None)"
  by (simp add: text_line_reader_read_def reader_records_tl Let_def)

lemma unpack_fields:
  "(case fs of [a, b] \<Rightarrow> Some (a, b) | _ \<Rightarrow> None) = Some (x, y) \<longleftrightarrow> fs = [x, y]"
  by (auto split: list.splits)

subsection \<open>The branches of the checkpoint set-up\<close>

lemmas session_defs = bnd_def perform_def ret_def try_except_def start_def eval_nat_numeral

lemma else_branch:
  "block [try_except (perform ev (Rmdir d) ())
            [(\<lambda>e. e = FileNotFoundError, ret ()), (is_OSError, ret ())],
          perform ev (Mkdir d) ()] (start\<lparr>trace := pre\<rparr>)
     = (let mk = (\<lambda>ok. case raises ev (Suc (length pre)) of
                     None \<Rightarrow> (Inr (), start\<lparr>trace := pre @ [(Rmdir d, ok), (Mkdir d, True)]\<rparr>)
                   | Some e \<Rightarrow> (Inl e, start\<lparr>trace := pre @ [(Rmdir d, ok), (Mkdir d, False)]\<rparr>))
        in case raises ev (length pre) of
             None \<Rightarrow> mk True
           | Some e \<Rightarrow> if is_OSError e then mk False
                       else (Inl e, start\<lparr>trace := pre @ [(Rmdir d, False)]\<rparr>))"
  by (auto simp: session_defs Let_def split: option.splits)

lemma then_branch:
  "bnd (perform ev (LatestCheckpoint d) (latest_checkpoint ev))
       (\<lambda>latest_check_point.
          case latest_check_point of
            None \<Rightarrow> ret ()
          | Some p \<Rightarrow> block [perform ev (PrintRestoring p) (), perform ev (Restore p) ()])
       (start\<lparr>trace := pre\<rparr>)
     = (case raises ev (length pre) of
          Some e \<Rightarrow> (Inl e, start\<lparr>trace := pre @ [(LatestCheckpoint d, False)]\<rparr>)
        | None \<Rightarrow>
           (case latest_checkpoint ev of
              None \<Rightarrow> (Inr (), start\<lparr>trace := pre @ [(LatestCheckpoint d, True)]\<rparr>)
            | Some p \<Rightarrow>
               (case raises ev (Suc (length pre)) of
                  Some e \<Rightarrow> (Inl e, start\<lparr>trace := pre @ [(LatestCheckpoint d, True), (PrintRestoring p, False)]\<rparr>)
                | None \<Rightarrow>
                   (case raises ev (Suc (Suc (length pre))) of
                      Some e \<Rightarrow> (Inl e, start\<lparr>trace := pre @ [(LatestCheckpoint d, True), (PrintRestoring p, True), (Restore p, False)]\<rparr>)
                    | None \<Rightarrow> (Inr (), start\<lparr>trace := pre @ [(LatestCheckpoint d, True), (PrintRestoring p, True), (Restore p, True)]\<rparr>)))))"
  by (auto simp: session_defs split: option.splits)

lemma condition:
  "bnd (perform ev (PathExists d) (path_exists ev))
       (\<lambda>a. if a then perform ev (CheckpointExists d) (checkpoint_exists ev) else ret False) start
     = (case raises ev 0 of
          Some e \<Rightarrow> (Inl e, start\<lparr>trace := [(PathExists d, False)]\<rparr>)
        | None \<Rightarrow>
            if path_exists ev
            then (case raises ev 1 of
                    Some e \<Rightarrow> (Inl e, start\<lparr>trace := [(PathExists d, True), (CheckpointExists d, False)]\<rparr>)
                  | None \<Rightarrow> (Inr (checkpoint_exists ev),
                             start\<lparr>trace := [(PathExists d, True), (CheckpointExists d, True)]\<rparr>))
            else (Inr False, start\<lparr>trace := [(PathExists d, True)]\<rparr>))"
  by (auto simp: session_defs split: option.splits)

lemma restore_or_init_start:
  "restore_or_init ev fl start =
     (case bnd (perform ev (PathExists (ckdir fl)) (path_exists ev))
               (\<lambda>a. if a then perform ev (CheckpointExists (ckdir fl)) (checkpoint_exists ev) else ret False) start of
        (Inl e, s) \<Rightarrow> (Inl e, s)
      | (Inr c, s) \<Rightarrow>
          if c then bnd (perform ev (LatestCheckpoint (ckdir fl)) (latest_checkpoint ev))
                        (\<lambda>latest_check_point.
                           case latest_check_point of
                             None \<Rightarrow> ret ()
                           | Some p \<Rightarrow> block [perform ev (PrintRestoring p) (),
                                               perform ev (Restore p) ()]) s
          else block [try_except (perform ev (Rmdir (ckdir fl)) ())
                             [(\<lambda>e. e = FileNotFoundError, ret ()), (is_OSError, ret ())],
                           perform ev (Mkdir (ckdir fl)) ()] s)"
  unfolding restore_or_init_def
  by (subst bnd_def) (simp split: prod.splits sum.splits)

lemma restore_or_init_cases:
  "restore_or_init ev fl start =
     (case raises ev 0 of
        Some e \<Rightarrow> (Inl e, start\<lparr>trace := [(PathExists (ckdir fl), False)]\<rparr>)
      | None \<Rightarrow>
          if path_exists ev
          then (case raises ev 1 of
                  Some e \<Rightarrow> (Inl e, start\<lparr>trace := [(PathExists (ckdir fl), True), (CheckpointExists (ckdir fl), False)]\<rparr>)
                | None \<Rightarrow>
                    if checkpoint_exists ev
                    then bnd (perform ev (LatestCheckpoint (ckdir fl)) (latest_checkpoint ev))
                        (\<lambda>latest_check_point.
                           case latest_check_point of
                             None \<Rightarrow> ret ()
                           | Some p \<Rightarrow> block [perform ev (PrintRestoring p) (),
                                               perform ev (Restore p) ()])
                        (start\<lparr>trace := [(PathExists (ckdir fl), True), (CheckpointExists (ckdir fl), True)]\<rparr>)
                    else block [try_except (perform ev (Rmdir (ckdir fl)) ())
                             [(\<lambda>e. e = FileNotFoundError, ret ()), (is_OSError, ret ())],
                           perform ev (Mkdir (ckdir fl)) ()]
                        (start\<lparr>trace := [(PathExists (ckdir fl), True), (CheckpointExists (ckdir fl), True)]\<rparr>))
          else block [try_except (perform ev (Rmdir (ckdir fl)) ())
                             [(\<lambda>e. e = FileNotFoundError, ret ()), (is_OSError, ret ())],
                           perform ev (Mkdir (ckdir fl)) ()]
                 (start\<lparr>trace := [(PathExists (ckdir fl), True)]\<rparr>))"
  unfolding restore_or_init_start condition
  by (simp split: option.splits)

lemmas restore_or_init_full = restore_or_init_cases[unfolded then_branch else_branch Let_def]

subsection \<open>The bindings of \<open>coord\<close> and \<open>threads\<close> through the training block\<close>

lemma perform_keeps: "both_bound s \<Longrightarrow> both_bound (snd (perform ev c v s))"
  by (simp add: perform_def both_bound_def split: option.splits)

lemma block_Nil_keeps: "both_bound s \<Longrightarrow> both_bound (snd (block [] s))"
  by (simp add: ret_def)

lemma block_Cons_keeps:
  assumes "\<And>s. both_bound s \<Longrightarrow> both_bound (snd (a s))"
    and "\<And>s. both_bound s \<Longrightarrow> both_bound (snd (block as s))"
  shows "both_bound s \<Longrightarrow> both_bound (snd (block (a # as) s))"
proof -
  assume s: "both_bound s"
  obtain r s1 where a: "a s = (r, s1)" by (cases "a s")
  with assms(1)[OF s] have s1: "both_bound s1" by simp
  show ?thesis
  proof (cases r)
    case (Inl e)
    with a s1 show ?thesis by (simp add: bnd_def)
  next
    case (Inr u)
    with a assms(2)[OF s1] show ?thesis by (simp add: bnd_def)
  qed
qed

lemma block_map_keeps:
  assumes "\<And>i s. both_bound s \<Longrightarrow> both_bound (snd (f i s))"
  shows "both_bound s \<Longrightarrow> both_bound (snd (block (map f xs) s))"
proof (induction xs arbitrary: s)
  case Nil
  then show ?case by (simp add: ret_def)
next
  case (Cons x xs)
  show ?case
    unfolding list.map
    by (rule block_Cons_keeps[OF assms Cons.IH Cons.prems])
qed

lemma for_range_keeps:
  assumes "\<And>i s. both_bound s \<Longrightarrow> both_bound (snd (body i s))"
  shows "both_bound s \<Longrightarrow> both_bound (snd (for_range a b c body s))"
  using block_map_keeps[of body, OF assms]
  by (simp add: for_range_def split: option.splits)

lemma rest_keeps:
  "both_bound s \<Longrightarrow> both_bound (snd (block [
       for_range 0 (epochs fl) 1 (\<lambda>epoch. block [
         for_range 0 (int n_train) (batch_size fl) (\<lambda>step. block [
           perform ev RunTrainBatch (),
           perform ev RunTrainStep (),
           perform ev AddTrainSummary ()]),
         for_range 0 (int n_test) (batch_size fl) (\<lambda>step. block [
           perform ev RunTestBatch (),
           perform ev RunTestStep (),
           perform ev AddTestSummary ()])]),
       perform ev (Save (ckpt_path fl)) ()] s))"
  by (intro block_Cons_keeps block_Nil_keeps for_range_keeps perform_keeps; assumption)

text \<open>When the three set-up calls return, the body ends with both variables bound.\<close>

lemma block_Cons_Inr: "a s = (Inr (), s1) \<Longrightarrow> block (a # as) s = block as s1"
  by (simp add: bnd_def)

lemma train_body_binds:
  assumes "raises ev (length (trace s)) = None" "raises ev (length (trace s) + 1) = None"
    "raises ev (length (trace s) + 2) = None"
  shows "both_bound (snd (train_body ev fl n_train n_test s))"
proof -
  let ?s1 = "s\<lparr>trace := trace s @ [(GetGlobalStep, True)]\<rparr>"
  let ?s2 = "?s1\<lparr>trace := trace ?s1 @ [(NewCoordinator, True)], coord_bound := True\<rparr>"
  let ?s3 = "?s2\<lparr>trace := trace ?s2 @ [(StartQueueRunners, True)], threads_bound := True\<rparr>"
  have 1: "perform ev GetGlobalStep () s = (Inr (), ?s1)"
    using assms(1) by (simp add: perform_def)
  have 2: "bnd (perform ev NewCoordinator ()) (\<lambda>_. bind_coord) ?s1 = (Inr (), ?s2)"
    using assms(2) by (simp add: perform_def bnd_def bind_coord_def)
  have 3: "bnd (perform ev StartQueueRunners ()) (\<lambda>_. bind_threads) ?s2 = (Inr (), ?s3)"
    using assms(3) by (simp add: perform_def bnd_def bind_threads_def)
  have "train_body ev fl n_train n_test s = block [
       for_range 0 (epochs fl) 1 (\<lambda>epoch. block [
         for_range 0 (int n_train) (batch_size fl) (\<lambda>step. block [
           perform ev RunTrainBatch (),
           perform ev RunTrainStep (),
           perform ev AddTrainSummary ()]),
         for_range 0 (int n_test) (batch_size fl) (\<lambda>step. block [
           perform ev RunTestBatch (),
           perform ev RunTestStep (),
           perform ev AddTestSummary ()])]),
       perform ev (Save (ckpt_path fl)) ()] ?s3"
    by (simp only: train_body_def
        block_Cons_Inr[where a = "perform ev GetGlobalStep ()", OF 1]
        block_Cons_Inr[where a = "bnd (perform ev NewCoordinator ()) (\<lambda>_. bind_coord)", OF 2]
        block_Cons_Inr[where a = "bnd (perform ev StartQueueRunners ()) (\<lambda>_. bind_threads)", OF 3])
  moreover have "both_bound ?s3" by (simp add: both_bound_def)
  ultimately show ?thesis using rest_keeps by simp
qed

lemma train_finally_bound:
  assumes "both_bound s" "raises ev (length (trace s)) = None" "raises ev (length (trace s) + 1) = None"
  shows "train_finally ev fl s =
           ((case raises ev (length (trace s) + 2) of None \<Rightarrow> Inr () | Some e \<Rightarrow> Inl e),
            s\<lparr>trace := trace s @ [(RequestStop, True), (Join, True),
                                   (Save (ckpt_path fl), raises ev (length (trace s) + 2) = None)]\<rparr>)"
  using assms
  by (auto simp: train_finally_def both_bound_def bnd_def perform_def read_var_def ret_def
      split: option.splits)

lemma block_snoc_Inr:
  "block (as @ [a]) s = (Inr (), s') \<Longrightarrow> \<exists>s1. block as s = (Inr (), s1) \<and> a s1 = (Inr (), s')"
proof (induction as arbitrary: s)
  case Nil
  then show ?case by (auto simp: bnd_def ret_def split: prod.splits sum.splits)
next
  case (Cons b bs)
  then show ?case
    by (cases "b s") (auto simp: bnd_def split: sum.splits)
qed

lemma train_body_saves:
  assumes "train_body ev fl n_train n_test s = (Inr (), sb)"
  shows "\<exists>pre. trace sb = pre @ [(Save (ckpt_path fl), True)]"
proof -
  have "train_body ev fl n_train n_test s = block ([
       perform ev GetGlobalStep (),
       bnd (perform ev NewCoordinator ()) (\<lambda>_. bind_coord),
       bnd (perform ev StartQueueRunners ()) (\<lambda>_. bind_threads),
       for_range 0 (epochs fl) 1 (\<lambda>epoch. block [
         for_range 0 (int n_train) (batch_size fl) (\<lambda>step. block [
           perform ev RunTrainBatch (),
           perform ev RunTrainStep (),
           perform ev AddTrainSummary ()]),
         for_range 0 (int n_test) (batch_size fl) (\<lambda>step. block [
           perform ev RunTestBatch (),
           perform ev RunTestStep (),
           perform ev AddTestSummary ()])])] @ [perform ev (Save (ckpt_path fl)) ()]) s"
    by (simp only: train_body_def append.simps)
  with assms obtain s1 where "perform ev (Save (ckpt_path fl)) () s1 = (Inr (), sb)"
    using block_snoc_Inr by metis
  then show ?thesis
    by (auto simp: perform_def split: option.splits)
qed

text \<open>
  Once the three set-up calls have returned and \<open>request_stop\<close> and \<open>join\<close> return as
  well, the \<open>finally\<close> clause reaches its save, and a body that returned has saved before.
\<close>

lemma train_block_stop_and_join_return:
  assumes first3: "raises ev (length (trace s)) = None" "raises ev (length (trace s) + 1) = None"
      "raises ev (length (trace s) + 2) = None"
    and body: "train_body ev fl n_train n_test s = (rb, sb)"
    and stop: "raises ev (length (trace sb)) = None"
    and join: "raises ev (length (trace sb) + 1) = None"
  shows "train_block ev fl n_train n_test s =
           ((case raises ev (length (trace sb) + 2) of None \<Rightarrow> rb | Some e \<Rightarrow> Inl e),
            sb\<lparr>trace := trace sb @ [(RequestStop, True), (Join, True),
                                     (Save (ckpt_path fl), raises ev (length (trace sb) + 2) = None)]\<rparr>)
       \<and> (rb = Inr () \<longrightarrow> (\<exists>pre. trace sb = pre @ [(Save (ckpt_path fl), True)]))"
proof -
  have b: "both_bound sb"
    using train_body_binds[OF first3, of fl n_train n_test] body by simp
  have "train_block ev fl n_train n_test s =
           ((case raises ev (length (trace sb) + 2) of None \<Rightarrow> rb | Some e \<Rightarrow> Inl e),
            sb\<lparr>trace := trace sb @ [(RequestStop, True), (Join, True),
                                     (Save (ckpt_path fl), raises ev (length (trace sb) + 2) = None)]\<rparr>)"
    by (simp add: train_block_def try_finally_def body train_finally_bound[OF b stop join]
        split: option.splits)
  moreover have "rb = Inr () \<longrightarrow> (\<exists>pre. trace sb = pre @ [(Save (ckpt_path fl), True)])"
    using train_body_saves body by auto
  ultimately show ?thesis by simp
qed
subsection \<open>C1: the training loss is the negated metric\<close>

text \<open>
  Claim C1. The operation \<open>make_train_op\<close> builds minimises the negation of what
  \<open>sparse_iou\<close> computes, and the metric \<open>IOU_op\<close> of \<open>main\<close> is \<open>sparse_iou\<close> of the same
  prediction and the same labels: for every value \<open>pv\<close> of the prediction and every fed
  value \<open>yv\<close> of the labels, the training loss is the negated metric, whatever the
  arithmetic.
\<close>

theorem training_loss_is_negated_metric:
  assumes "main_graph fl = Some g"
  shows "loss (make_train_op ar ps y_pred y_true lr b1 b2 eps)
           = map_option (fneg ar) (sparse_iou ar ps y_pred y_true)
       \<and> (\<exists>pshape. shape_of (g_pred g) = Some pshape
            \<and> main_IOU_op ar g pv yv = Some (sparse_iou ar pshape pv yv)
            \<and> map_option loss (main_train_op ar fl g pv yv)
                = Some (map_option (fneg ar) (sparse_iou ar pshape pv yv)))"
proof -
  from make_unet_has_shape[OF main_graph_Some(2)[OF assms]]
  obtain pshape where "shape_of (g_pred g) = Some pshape" by auto
  then show ?thesis
    by (simp add: main_IOU_op_def main_train_op_def make_train_op_def tf_Print_def)
qed

theorem training_loss_is_negated_metric_witness:
  "\<exists>g. main_graph flags_16 = Some g
     \<and> (\<forall>ar. main_IOU_op ar g ex_pv ex_yv
                = Some (sparse_iou ar [None, Some 16, Some 16, Some 2] ex_pv ex_yv)
            \<and> map_option loss (main_train_op ar flags_16 g ex_pv ex_yv)
                = Some (map_option (fneg ar) (sparse_iou ar [None, Some 16, Some 16, Some 2] ex_pv ex_yv))
            \<and> (\<exists>v. sparse_iou ar [None, Some 16, Some 16, Some 2] ex_pv ex_yv = Some v))"
proof -
  obtain g where g: "main_graph flags_16 = Some g"
    and s: "shape_of (g_pred g) = Some [None, Some 16, Some 16, Some 2]"
    using main_graph_shape[of flags_16]
    by (auto simp: flags_16_def read_flags_defaults_def)
  have "main_IOU_op ar g ex_pv ex_yv
                = Some (sparse_iou ar [None, Some 16, Some 16, Some 2] ex_pv ex_yv)
            \<and> map_option loss (main_train_op ar flags_16 g ex_pv ex_yv)
                = Some (map_option (fneg ar) (sparse_iou ar [None, Some 16, Some 16, Some 2] ex_pv ex_yv))
            \<and> (\<exists>v. sparse_iou ar [None, Some 16, Some 16, Some 2] ex_pv ex_yv = Some v)"
    for ar :: "rat arith"
    using training_loss_is_negated_metric[OF g, where pv = ex_pv and yv = ex_yv and ar = ar] s
      sparse_iou_ex_returns[of ar]
    by auto
  with g show ?thesis by blast
qed
subsection \<open>C2: what \<open>IOU_\<close> computes\<close>

text \<open>
  Claim C2, as amended. For every batch of predictions of one size \<open>(H, W)\<close>, \<open>H, W > 0\<close>,
  and as many masks of that size, \<open>IOU_\<close> returns what the \<open>float32\<close> operations of the
  library give for the mean over the batch of \<open>(2 * intersection + 1e-7) / (sum of the
  prediction + sum of the mask + 1e-7)\<close>, where the intersection is the sum of the
  elementwise products: twice the intersection over the sum of the two areas, not the
  intersection over the union. The statement holds for every arithmetic. In single
  precision the result is 11184811/16777216 for a 1x2 prediction of ones whose mask has
  the first pixel set, and NaN for a prediction whose sum overflows.
\<close>

theorem IOU_is_smoothed_dice:
  assumes "conforming H W y_pred y_true"
  shows "IOU_fun ar [b, Some H, Some W] y_pred y_true
           = Some (fmean ar (map2 (dice ar) (flat_pred y_pred) (flat_true ar y_true)))"
  using IOU_fun_dice[OF assms] .

theorem IOU_is_smoothed_dice_witness:
  "conforming 1 2 ex_pred ex_true
   \<and> IOU_fun float32 [None, Some 1, Some 2] ex_pred ex_true
       = Some (fmean float32 (map2 (dice float32) (flat_pred ex_pred) (flat_true float32 ex_true)))
   \<and> fmean float32 (map2 (dice float32) (flat_pred ex_pred) (flat_true float32 ex_true))
       = Finite False (11184811 / 16777216)
   \<and> conforming 1 2 ex_pred_large ex_true_full
   \<and> IOU_fun float32 [None, Some 1, Some 2] ex_pred_large ex_true_full
       = Some (fmean float32 (map2 (dice float32) (flat_pred ex_pred_large) (flat_true float32 ex_true_full)))
   \<and> fmean float32 (map2 (dice float32) (flat_pred ex_pred_large) (flat_true float32 ex_true_full))
       = NaN"
proof -
  have c: "conforming 1 2 ex_pred ex_true"
    by (simp add: conforming_def ex_pred_def ex_true_def)
  have v: "fmean float32 (map2 (dice float32) (flat_pred ex_pred) (flat_true float32 ex_true))
       = Finite False (11184811 / 16777216)"
    by code_simp
  have c': "conforming 1 2 ex_pred_large ex_true_full"
    by (simp add: conforming_def ex_pred_large_def ex_true_full_def)
  have v': "fmean float32 (map2 (dice float32) (flat_pred ex_pred_large) (flat_true float32 ex_true_full))
       = NaN"
    by code_simp
  show ?thesis
    by (intro conjI; (fact c | fact v | fact c' | fact v'
          | fact IOU_is_smoothed_dice[OF c, of float32 None]
          | fact IOU_is_smoothed_dice[OF c', of float32 None]))
qed

text \<open>
  The claim as stated, that \<open>IOU_\<close> is the mean of intersection over union, fails on one
  1x2 prediction of all ones whose mask has the first pixel set. The intersection is 1
  and the union 2, so the ratio is 1/2, a \<open>float32\<close> number. In single precision
  \<open>2 * 1 + 1e-7\<close> is 2 and \<open>2 + 1 + 1e-7\<close> is 3, and \<open>IOU_\<close> returns the \<open>float32\<close>
  nearest to 2/3, which is 11184811/16777216.
\<close>

theorem IOU_is_not_intersection_over_union_counterexample:
  "conforming 1 2 ex_pred ex_true
   \<and> flat_pred ex_pred = map (map f32_of_rat) ex_pred_exact
   \<and> flat_true float32 ex_true = map (map f32_of_rat) ex_true_exact
   \<and> IOU_fun float32 [None, Some 1, Some 2] ex_pred ex_true = Some (Finite False (11184811 / 16777216))
   \<and> batch_mean iou_ratio ex_pred_exact ex_true_exact = 1 / 2
   \<and> f32_of_rat (1 / 2) = Finite False (1 / 2)
   \<and> IOU_fun float32 [None, Some 1, Some 2] ex_pred ex_true
       \<noteq> Some (f32_of_rat (batch_mean iou_ratio ex_pred_exact ex_true_exact))"
proof -
  have c: "conforming 1 2 ex_pred ex_true"
    by (simp add: conforming_def ex_pred_def ex_true_def)
  have p: "flat_pred ex_pred = map (map f32_of_rat) ex_pred_exact"
    by code_simp
  have t: "flat_true float32 ex_true = map (map f32_of_rat) ex_true_exact"
    by code_simp
  have d: "IOU_fun float32 [None, Some 1, Some 2] ex_pred ex_true = Some (Finite False (11184811 / 16777216))"
    by code_simp
  have i: "batch_mean iou_ratio ex_pred_exact ex_true_exact = 1 / 2"
    by (simp add: batch_mean_def iou_ratio_def intersection_area_def ex_pred_exact_def ex_true_exact_def)
  have h: "f32_of_rat (1 / 2) = Finite False (1 / 2)"
    by code_simp
  have n: "IOU_fun float32 [None, Some 1, Some 2] ex_pred ex_true
       \<noteq> Some (f32_of_rat (batch_mean iou_ratio ex_pred_exact ex_true_exact))"
    unfolding d i h by simp
  show ?thesis
    by (intro conjI; (fact c | fact p | fact t | fact d | fact i | fact h | fact n))
qed

subsection \<open>C3: the encoder and decoder topology of \<open>make_unet\<close>\<close>

text \<open>
  Claim C3. Whenever \<open>make_unet\<close> returns a graph, the graph has this topology: four
  blocks on the contracting path (\<open>conv1\<close> to \<open>conv4\<close>), each followed by a 2x2, stride-2
  max-pooling that feeds the next block; a fifth block \<open>conv5\<close>; and four expanding steps,
  each resizing the lower-resolution node by nearest neighbour to twice its height and
  width, concatenating it along the last axis with the output of the matching
  contracting block (\<open>conv4\<close>, \<open>conv3\<close>, \<open>conv2\<close>, \<open>conv1\<close>, in that order) and
  applying a block to the result.
\<close>

theorem make_unet_topology:
  assumes "make_unet X training act classes = Some out"
  shows "\<exists>net conv1 pool1 conv2 pool2 conv3 pool3 conv4 pool4 conv5 up6 conv6 up7 conv7 up8 conv8 up9 conv9.
       net = Conv2D (SubConst (DivConst X 127.5) 1) 3 (1, 1) None Valid ''color_space_adjust''
     \<and> conv_bn_act_chain Relu training net [8, 8] conv1 \<and> is_pool_of pool1 conv1
     \<and> conv_bn_act_chain Relu training pool1 [16, 16] conv2 \<and> is_pool_of pool2 conv2
     \<and> conv_bn_act_chain Relu training pool2 [32, 32] conv3 \<and> is_pool_of pool3 conv3
     \<and> conv_bn_act_chain Relu training pool3 [64, 64] conv4 \<and> is_pool_of pool4 conv4
     \<and> conv_bn_act_chain Relu training pool4 [128, 128] conv5
     \<and> is_upsample2_concat up6 conv5 conv4 \<and> conv_bn_act_chain Relu training up6 [64, 64] conv6
     \<and> is_upsample2_concat up7 conv6 conv3 \<and> conv_bn_act_chain Relu training up7 [32, 32] conv7
     \<and> is_upsample2_concat up8 conv7 conv2 \<and> conv_bn_act_chain Relu training up8 [16, 16] conv8
     \<and> is_upsample2_concat up9 conv8 conv1 \<and> conv_bn_act_chain Relu training up9 [8, 8] conv9
     \<and> out = Conv2D conv9 classes (1, 1) (Some act) Same ''final''"
  using make_unet_Some[OF assms] .

theorem make_unet_topology_witness:
  "\<exists>out. make_unet ex_X ex_mode Softmax 5 = Some out \<and>
     (\<exists>net conv1 pool1 conv2 pool2 conv3 pool3 conv4 pool4 conv5 up6 conv6 up7 conv7 up8 conv8 up9 conv9.
       net = Conv2D (SubConst (DivConst ex_X 127.5) 1) 3 (1, 1) None Valid ''color_space_adjust''
     \<and> conv_bn_act_chain Relu ex_mode net [8, 8] conv1 \<and> is_pool_of pool1 conv1
     \<and> conv_bn_act_chain Relu ex_mode pool1 [16, 16] conv2 \<and> is_pool_of pool2 conv2
     \<and> conv_bn_act_chain Relu ex_mode pool2 [32, 32] conv3 \<and> is_pool_of pool3 conv3
     \<and> conv_bn_act_chain Relu ex_mode pool3 [64, 64] conv4 \<and> is_pool_of pool4 conv4
     \<and> conv_bn_act_chain Relu ex_mode pool4 [128, 128] conv5
     \<and> is_upsample2_concat up6 conv5 conv4 \<and> conv_bn_act_chain Relu ex_mode up6 [64, 64] conv6
     \<and> is_upsample2_concat up7 conv6 conv3 \<and> conv_bn_act_chain Relu ex_mode up7 [32, 32] conv7
     \<and> is_upsample2_concat up8 conv7 conv2 \<and> conv_bn_act_chain Relu ex_mode up8 [16, 16] conv8
     \<and> is_upsample2_concat up9 conv8 conv1 \<and> conv_bn_act_chain Relu ex_mode up9 [8, 8] conv9
     \<and> out = Conv2D conv9 5 (1, 1) (Some Softmax) Same ''final'')"
proof -
  have "shape_of ex_X = Some [None, Some (16 * 1), Some (16 * 1), Some 3]"
    by (simp add: ex_X_def)
  moreover have "shape_of ex_mode \<noteq> None"
    by (simp add: ex_mode_def)
  ultimately obtain out where out: "make_unet ex_X ex_mode Softmax 5 = Some out"
    using make_unet_shape[of ex_X None 1 1 3 ex_mode 5 Softmax] by auto
  from make_unet_topology[OF out] out show ?thesis by blast
qed

subsection \<open>C4: batch normalisation between convolution and activation\<close>

text \<open>
  Claim C4. In every block built by \<open>conv_conv_pool\<close>, each layer is a convolution, then a
  batch normalisation, then the activation, in that order: the returned \<open>net\<close> is the input
  under one such triple per element of \<open>n_filters\<close> (two, for the two-element lists the
  script passes). When \<open>pool\<close> is true the block also returns the 2x2, stride-2 max-pooling
  of \<open>net\<close>; otherwise it returns \<open>net\<close> alone.
\<close>

theorem conv_conv_pool_batch_norm_between:
  assumes "conv_conv_pool inp n_filters tr nm pool a = Some (net, p)"
  shows "conv_bn_act_chain a tr inp n_filters net
       \<and> (if pool then (\<exists>pl. p = Some pl \<and> is_pool_of pl net) else p = None)"
  using conv_conv_pool_Some[OF assms]
  by (auto simp: is_pool_of_def)

theorem conv_conv_pool_batch_norm_between_witness:
  "conv_conv_pool ex_X [8, 8] ex_mode 1 True Relu = Some (ex_net, Some ex_pool)
   \<and> conv_bn_act_chain Relu ex_mode ex_X [8, 8] ex_net
   \<and> is_pool_of ex_pool ex_net"
proof -
  have h: "conv_conv_pool ex_X [8, 8] ex_mode 1 True Relu = Some (ex_net, Some ex_pool)"
    by code_simp
  from conv_conv_pool_batch_norm_between[OF h] show ?thesis using h by simp
qed

subsection \<open>C5: the checkpoint directory\<close>

text \<open>
  Claim C5, as amended. Around the checkpoint directory \<open>main\<close> handles one thing only.
  When \<open>os.path.exists\<close> or \<open>tf.train.checkpoint_exists\<close> answers false for the
  directory, \<open>os.rmdir\<close> is attempted; if it returns, or raises \<open>FileNotFoundError\<close> or
  another \<open>OSError\<close>, the exception is dropped and \<open>os.mkdir\<close> is called. The directory
  is created only if that call returns: its exception is not handled and is the outcome
  of the branch. When both answer true and a latest checkpoint is found, that checkpoint
  is restored and neither \<open>rmdir\<close> nor \<open>mkdir\<close> is called; when both answer true and no
  latest checkpoint is found, nothing more is done. No other exception is handled: if the
  branch returns, the only call in it that may have raised is the \<open>rmdir\<close>; and if it
  raises, the exception is the one of the last call made, which is not an \<open>OSError\<close> when
  that call is the \<open>rmdir\<close>.
\<close>

theorem checkpoint_branch_handling:
  "(raises ev 0 = None \<and> \<not> path_exists ev \<and> (\<forall>e. raises ev 1 = Some e \<longrightarrow> is_OSError e) \<longrightarrow>
      restore_or_init ev fl start =
        ((case raises ev 2 of None \<Rightarrow> Inr () | Some e \<Rightarrow> Inl e),
         start\<lparr>trace := [(PathExists (ckdir fl), True), (Rmdir (ckdir fl), raises ev 1 = None),
                          (Mkdir (ckdir fl), raises ev 2 = None)]\<rparr>))
   \<and> (raises ev 0 = None \<and> path_exists ev \<and> raises ev 1 = None \<and> \<not> checkpoint_exists ev
        \<and> (\<forall>e. raises ev 2 = Some e \<longrightarrow> is_OSError e) \<longrightarrow>
      restore_or_init ev fl start =
        ((case raises ev 3 of None \<Rightarrow> Inr () | Some e \<Rightarrow> Inl e),
         start\<lparr>trace := [(PathExists (ckdir fl), True), (CheckpointExists (ckdir fl), True),
                          (Rmdir (ckdir fl), raises ev 2 = None),
                          (Mkdir (ckdir fl), raises ev 3 = None)]\<rparr>))
   \<and> (raises ev 0 = None \<and> path_exists ev \<and> raises ev 1 = None \<and> checkpoint_exists ev
        \<and> raises ev 2 = None \<and> latest_checkpoint ev = Some p \<and> raises ev 3 = None \<longrightarrow>
      restore_or_init ev fl start =
        ((case raises ev 4 of None \<Rightarrow> Inr () | Some e \<Rightarrow> Inl e),
         start\<lparr>trace := [(PathExists (ckdir fl), True), (CheckpointExists (ckdir fl), True),
                          (LatestCheckpoint (ckdir fl), True), (PrintRestoring p, True),
                          (Restore p, raises ev 4 = None)]\<rparr>))
   \<and> (raises ev 0 = None \<and> path_exists ev \<and> raises ev 1 = None \<and> checkpoint_exists ev
        \<and> raises ev 2 = None \<and> latest_checkpoint ev = None \<longrightarrow>
      restore_or_init ev fl start =
        (Inr (),
         start\<lparr>trace := [(PathExists (ckdir fl), True), (CheckpointExists (ckdir fl), True),
                          (LatestCheckpoint (ckdir fl), True)]\<rparr>))
   \<and> (restore_or_init ev fl start = (Inr (), s') \<longrightarrow>
        list_all (\<lambda>(c, ok). ok \<or> c = Rmdir (ckdir fl)) (trace s'))
   \<and> (restore_or_init ev fl start = (Inl e, s') \<longrightarrow>
        trace s' \<noteq> [] \<and> snd (last (trace s')) = False
        \<and> raises ev (length (trace s') - 1) = Some e
        \<and> (fst (last (trace s')) = Rmdir (ckdir fl) \<longrightarrow> \<not> is_OSError e))"
proof (intro conjI)
  show "raises ev 0 = None \<and> \<not> path_exists ev \<and> (\<forall>e. raises ev 1 = Some e \<longrightarrow> is_OSError e) \<longrightarrow>
      restore_or_init ev fl start =
        ((case raises ev 2 of None \<Rightarrow> Inr () | Some e \<Rightarrow> Inl e),
         start\<lparr>trace := [(PathExists (ckdir fl), True), (Rmdir (ckdir fl), raises ev 1 = None),
                          (Mkdir (ckdir fl), raises ev 2 = None)]\<rparr>)"
    by (auto simp: restore_or_init_full eval_nat_numeral split: option.splits)
  show "raises ev 0 = None \<and> path_exists ev \<and> raises ev 1 = None \<and> \<not> checkpoint_exists ev
        \<and> (\<forall>e. raises ev 2 = Some e \<longrightarrow> is_OSError e) \<longrightarrow>
      restore_or_init ev fl start =
        ((case raises ev 3 of None \<Rightarrow> Inr () | Some e \<Rightarrow> Inl e),
         start\<lparr>trace := [(PathExists (ckdir fl), True), (CheckpointExists (ckdir fl), True),
                          (Rmdir (ckdir fl), raises ev 2 = None),
                          (Mkdir (ckdir fl), raises ev 3 = None)]\<rparr>)"
    by (auto simp: restore_or_init_full eval_nat_numeral split: option.splits)
  show "raises ev 0 = None \<and> path_exists ev \<and> raises ev 1 = None \<and> checkpoint_exists ev
        \<and> raises ev 2 = None \<and> latest_checkpoint ev = Some p \<and> raises ev 3 = None \<longrightarrow>
      restore_or_init ev fl start =
        ((case raises ev 4 of None \<Rightarrow> Inr () | Some e \<Rightarrow> Inl e),
         start\<lparr>trace := [(PathExists (ckdir fl), True), (CheckpointExists (ckdir fl), True),
                          (LatestCheckpoint (ckdir fl), True), (PrintRestoring p, True),
                          (Restore p, raises ev 4 = None)]\<rparr>)"
    by (auto simp: restore_or_init_full eval_nat_numeral split: option.splits)
  show "raises ev 0 = None \<and> path_exists ev \<and> raises ev 1 = None \<and> checkpoint_exists ev
        \<and> raises ev 2 = None \<and> latest_checkpoint ev = None \<longrightarrow>
      restore_or_init ev fl start =
        (Inr (),
         start\<lparr>trace := [(PathExists (ckdir fl), True), (CheckpointExists (ckdir fl), True),
                          (LatestCheckpoint (ckdir fl), True)]\<rparr>)"
    by (auto simp: restore_or_init_full eval_nat_numeral split: option.splits)
  show "restore_or_init ev fl start = (Inr (), s') \<longrightarrow>
        list_all (\<lambda>(c, ok). ok \<or> c = Rmdir (ckdir fl)) (trace s')"
    by (auto simp: restore_or_init_full eval_nat_numeral split: option.splits if_splits)
  show "restore_or_init ev fl start = (Inl e, s') \<longrightarrow>
        trace s' \<noteq> [] \<and> snd (last (trace s')) = False
        \<and> raises ev (length (trace s') - 1) = Some e
        \<and> (fst (last (trace s')) = Rmdir (ckdir fl) \<longrightarrow> \<not> is_OSError e)"
    by (auto simp: restore_or_init_full eval_nat_numeral split: option.splits if_splits)
qed

theorem checkpoint_branch_handling_witness:
  "restore_or_init env_missing_dir read_flags_defaults start =
     (Inr (), start\<lparr>trace := [(PathExists ''models'', True), (Rmdir ''models'', False),
                               (Mkdir ''models'', True)]\<rparr>)"
  using checkpoint_branch_handling[where ev = env_missing_dir and fl = read_flags_defaults]
  by (simp add: env_missing_dir_def read_flags_defaults_def)

text \<open>
  The claim as stated, that the directory is then created whenever it does not exist or
  holds no checkpoint, fails in two runs with the default flags. When the checkpoint path
  is a symbolic link to nothing, the error of \<open>os.rmdir\<close> is dropped, \<open>os.mkdir\<close> raises
  \<open>FileExistsError\<close>, which leaves the branch, and no directory is created. When the
  directory exists and holds no checkpoint, \<open>tf.train.checkpoint_exists\<close> answers true,
  and neither \<open>rmdir\<close> nor \<open>mkdir\<close> is called.
\<close>

theorem checkpoint_directory_not_created_counterexample:
  "restore_or_init env_dangling_link read_flags_defaults start =
     (Inl FileExistsError,
      start\<lparr>trace := [(PathExists ''models'', True), (Rmdir ''models'', False),
                       (Mkdir ''models'', False)]\<rparr>)
   \<and> restore_or_init env_empty_dir read_flags_defaults start =
     (Inr (),
      start\<lparr>trace := [(PathExists ''models'', True), (CheckpointExists ''models'', True),
                       (LatestCheckpoint ''models'', True)]\<rparr>)"
  by (simp add: restore_or_init_full env_dangling_link_def env_empty_dir_def
      read_flags_defaults_def)
subsection \<open>C6: the CSV interface of \<open>get_image_mask\<close>\<close>

text \<open>
  Claim C6. \<open>get_image_mask\<close> skips exactly one header line of each file it reads: its
  \<open>k\<close>-th evaluation returns a pair exactly when the files without their first lines have
  a \<open>k\<close>-th line, that line decodes, with the empty string as the default of both columns,
  into exactly two fields, the files named by \<open>data_root\<close> followed by the first and by the
  second field can be read, the first decodes with 3 channels and the second with 1
  channel; the pair is then the two decoded values cast to floats, passed through
  \<open>image_augmentation\<close> when \<open>augmentation\<close> is set.
\<close>

theorem get_image_mask_reads_csv_pairs:
  "get_image_mask wl d queue droot augmentation dec k = Some r \<longleftrightarrow>
     k < length (concat (map tl queue))
     \<and> (\<exists>a b fi fm im mk.
           decode_csv wl (concat (map tl queue) ! k) [[], []] = Some [a, b]
         \<and> read_file wl (droot @ a) = Some fi \<and> read_file wl (droot @ b) = Some fm
         \<and> dec fi 3 = Some im \<and> dec fm 1 = Some mk
         \<and> (if augmentation then image_augmentation wl d (cast_float im) (cast_float mk)
             else Some (cast_float im, cast_float mk)) = Some r)"
  unfolding get_image_mask_def text_line_reader_read_tl
  by (auto simp: Option.bind_eq_Some_conv Let_def unpack_fields split: if_splits)

theorem get_image_mask_reads_csv_pairs_witness:
  "get_image_mask ex_world ex_draws [ex_csv] ''d/'' False ex_decoder 0
     = Some ([[[10, 20, 30]]], [[[255]]])
   \<and> get_image_mask ex_world ex_draws [ex_csv] ''d/'' False ex_decoder 1 = None"
proof -
  have "get_image_mask ex_world ex_draws [ex_csv] ''d/'' False ex_decoder 0
     = Some ([[[10, 20, 30]]], [[[255]]])"
    unfolding get_image_mask_reads_csv_pairs
    by (simp add: ex_csv_def ex_world_def ex_decoder_def cast_float_def)
  moreover have "get_image_mask ex_world ex_draws [ex_csv] ''d/'' False ex_decoder 1 = None"
    using get_image_mask_reads_csv_pairs[of ex_world ex_draws "[ex_csv]" "''d/''" False ex_decoder 1]
    by (cases "get_image_mask ex_world ex_draws [ex_csv] ''d/'' False ex_decoder 1")
       (simp_all add: ex_csv_def)
  ultimately show ?thesis by simp
qed

subsection \<open>C7: the final activation and the size of the output\<close>

text \<open>
  Claim C7, as amended. For every value of the flags, \<open>main\<close> selects softmax as the final
  activation exactly when \<open>flags.channels > 1\<close> and sigmoid exactly when
  \<open>flags.channels <= 1\<close>, and whenever the graph is built that activation is the one of the
  final 1x1 convolution, which has \<open>flags.channels\<close> filters. When \<open>flags.height\<close> and
  \<open>flags.w\<close> are positive multiples of 16 and \<open>flags.channels\<close> is at least 1, the graph is
  built and the output of the network has the height and width of the input and
  \<open>flags.channels\<close> channels per pixel.
\<close>

theorem main_selects_activation_and_keeps_size:
  "(select_activation fl = Softmax \<longleftrightarrow> channels fl > 1)
   \<and> (select_activation fl = Sigmoid \<longleftrightarrow> channels fl \<le> 1)
   \<and> (\<forall>g. main_graph fl = Some g \<longrightarrow>
          (\<exists>c9. g_pred g = Conv2D c9 (channels fl) (1, 1) (Some (select_activation fl)) Same ''final''))
   \<and> (0 < height fl \<and> 16 dvd height fl \<and> 0 < w fl \<and> 16 dvd w fl \<and> 1 \<le> channels fl \<longrightarrow>
        (\<exists>g. main_graph fl = Some g
           \<and> shape_of (g_X g) = Some [None, Some (nat (height fl)), Some (nat (w fl)), Some 3]
           \<and> shape_of (g_pred g) = Some [None, Some (nat (height fl)), Some (nat (w fl)), Some (nat (channels fl))]))"
proof (intro conjI allI impI)
  show "(select_activation fl = Softmax) = (1 < channels fl)"
    by (simp add: select_activation_def)
  show "(select_activation fl = Sigmoid) = (channels fl \<le> 1)"
    by (auto simp: select_activation_def)
next
  fix g assume "main_graph fl = Some g"
  from make_unet_final[OF main_graph_Some(2)[OF this]]
  show "\<exists>c9. g_pred g = Conv2D c9 (channels fl) (1, 1) (Some (select_activation fl)) Same ''final''" .
next
  assume "0 < height fl \<and> 16 dvd height fl \<and> 0 < w fl \<and> 16 dvd w fl \<and> 1 \<le> channels fl"
  then show "\<exists>g. main_graph fl = Some g
           \<and> shape_of (g_X g) = Some [None, Some (nat (height fl)), Some (nat (w fl)), Some 3]
           \<and> shape_of (g_pred g) = Some [None, Some (nat (height fl)), Some (nat (w fl)), Some (nat (channels fl))]"
    using main_graph_shape by blast
qed

theorem main_selects_activation_and_keeps_size_witness:
  "select_activation read_flags_defaults = Softmax
   \<and> (\<exists>g. main_graph read_flags_defaults = Some g
        \<and> shape_of (g_X g) = Some [None, Some 256, Some 256, Some 3]
        \<and> shape_of (g_pred g) = Some [None, Some 256, Some 256, Some 5]
        \<and> (\<exists>c9. g_pred g = Conv2D c9 5 (1, 1) (Some Softmax) Same ''final''))"
  using main_selects_activation_and_keeps_size[of read_flags_defaults]
  by (auto simp: read_flags_defaults_def)

text \<open>
  The claim as stated, for every value of the flags, fails at \<open>--height 100 -w 100\<close>: the
  four poolings give heights 50, 25, 12 and 6, the second upsampling gives 24 where the
  skip connection has 25, and the concatenation is refused, so no network output exists.
\<close>

theorem main_graph_height_100_counterexample:
  "main_graph flags_100 = None"
  by code_simp

subsection \<open>C8: the left-right flip is discarded\<close>

text \<open>
  Claim C8. The outputs of \<open>image_augmentation\<close> derive only from the random up-down flip
  of the concatenated input: the outcome of the left-right draw does not enter the result,
  and for every image and mask of one height and width (the mask with one channel) the
  returned mask is the input mask, flipped up-down or not, and the returned image is the
  photometric adjustment of the input image under that same flip. Neither is ever
  flipped left-right.
\<close>

theorem augmentation_ignores_left_right_flip:
  "image_augmentation wl (d\<lparr>flip_lr := c\<rparr>) img msk = image_augmentation wl d img msk
   \<and> (paired img msk \<longrightarrow>
        image_augmentation wl d img msk =
          (case random_brightness wl (u_brightness d) (random_flip_up_down (flip_ud d) img) 0.7 of
             None \<Rightarrow> None
           | Some b \<Rightarrow>
               (case random_hue wl (u_hue d) b 0.3 of
                  None \<Rightarrow> None
                | Some h \<Rightarrow> Some (h, random_flip_up_down (flip_ud d) msk))))"
  using image_augmentation_paired[of img msk wl d]
  by (simp add: image_augmentation_eq split: option.splits)

theorem augmentation_ignores_left_right_flip_witness:
  "paired ex_image ex_mask
   \<and> image_augmentation ex_world (ex_draws\<lparr>flip_lr := False\<rparr>) ex_image ex_mask
       = image_augmentation ex_world ex_draws ex_image ex_mask
   \<and> image_augmentation ex_world ex_draws ex_image ex_mask
       = Some ([[[7.7, 8.7, 9.7], [10.7, 11.7, 12.7]], [[1.7, 2.7, 3.7], [4.7, 5.7, 6.7]]],
               [[[255], [0]], [[0], [255]]])"
proof -
  have p: "paired ex_image ex_mask"
    by (simp add: paired_def ex_image_def ex_mask_def)
  from augmentation_ignores_left_right_flip[where wl = ex_world and d = ex_draws and c = False
      and img = ex_image and msk = ex_mask] p
  show ?thesis
    by (simp add: ex_image_def ex_mask_def ex_world_def ex_draws_def random_hue_def
        random_brightness_def random_flip_up_down_def flip_up_down_def)
qed

subsection \<open>C9: the mask stays aligned and keeps its values\<close>

text \<open>
  Claim C9. Whenever \<open>image_augmentation\<close> returns, the image and the mask it returns come
  from the two slices of one and the same flipped concatenation, so the flip of the image
  is the flip of the mask; the brightness and hue adjustments are applied to the image
  slice only, and the returned mask is the same whatever the adjustments and their
  deltas are. For an image and mask of one height and width (the mask with one channel)
  the returned mask is the input mask under the flip, with its values as they were, and
  the brightness adjustment is applied to the input image under that same flip.
\<close>

theorem augmentation_keeps_mask_aligned_and_untouched:
  assumes "image_augmentation wl d img msk = Some (img', msk')"
  shows "\<exists>cat b. concat_last img msk = Some cat
       \<and> msk' = last_channel (random_flip_up_down (flip_ud d) cat)
       \<and> random_brightness wl (u_brightness d)
            (all_but_last_channel (random_flip_up_down (flip_ud d) cat)) 0.7 = Some b
       \<and> random_hue wl (u_hue d) b 0.3 = Some img'
       \<and> (\<forall>wl' ub uh i2 m2.
             image_augmentation wl' (d\<lparr>u_brightness := ub, u_hue := uh\<rparr>) img msk = Some (i2, m2)
             \<longrightarrow> m2 = msk')
       \<and> (paired img msk \<longrightarrow>
            msk' = random_flip_up_down (flip_ud d) msk
          \<and> random_brightness wl (u_brightness d) (random_flip_up_down (flip_ud d) img) 0.7 = Some b)"
proof -
  from assms obtain cat b where cat: "concat_last img msk = Some cat"
    and b: "random_brightness wl (u_brightness d)
            (all_but_last_channel (random_flip_up_down (flip_ud d) cat)) 0.7 = Some b"
    and h: "random_hue wl (u_hue d) b 0.3 = Some img'"
    and m: "msk' = last_channel (random_flip_up_down (flip_ud d) cat)"
    by (auto simp: image_augmentation_eq split: option.splits)
  have ind: "\<forall>wl' ub uh i2 m2.
             image_augmentation wl' (d\<lparr>u_brightness := ub, u_hue := uh\<rparr>) img msk = Some (i2, m2)
             \<longrightarrow> m2 = msk'"
    using cat m by (auto simp: image_augmentation_eq split: option.splits)
  have "paired img msk \<longrightarrow>
            msk' = random_flip_up_down (flip_ud d) msk
          \<and> random_brightness wl (u_brightness d) (random_flip_up_down (flip_ud d) img) 0.7 = Some b"
  proof
    assume p: "paired img msk"
    from concat_last_paired[OF p] cat have c: "cat = map2 (map2 (@)) img msk" by simp
    show "msk' = random_flip_up_down (flip_ud d) msk
          \<and> random_brightness wl (u_brightness d) (random_flip_up_down (flip_ud d) img) 0.7 = Some b"
      using m b
      by (simp add: c all_but_last_flip last_channel_flip all_but_last_paired[OF p] last_channel_paired[OF p])
  qed
  with cat b h m ind show ?thesis by blast
qed

theorem augmentation_keeps_mask_aligned_and_untouched_witness:
  "image_augmentation ex_world ex_draws ex_image ex_mask
       = Some ([[[7.7, 8.7, 9.7], [10.7, 11.7, 12.7]], [[1.7, 2.7, 3.7], [4.7, 5.7, 6.7]]],
               [[[255], [0]], [[0], [255]]])
   \<and> paired ex_image ex_mask
   \<and> [[[255], [0]], [[0], [255]]] = random_flip_up_down (flip_ud ex_draws) ex_mask
   \<and> image_augmentation ex_world (ex_draws\<lparr>u_brightness := 0, u_hue := 0\<rparr>) ex_image ex_mask
       = Some ([[[4.41, 5.11, 5.81], [6.51, 7.21, 7.91]], [[0.21, 0.91, 1.61], [2.31, 3.01, 3.71]]],
               [[[255], [0]], [[0], [255]]])"
proof -
  have r: "image_augmentation ex_world ex_draws ex_image ex_mask
       = Some ([[[7.7, 8.7, 9.7], [10.7, 11.7, 12.7]], [[1.7, 2.7, 3.7], [4.7, 5.7, 6.7]]],
               [[[255], [0]], [[0], [255]]])"
    by (simp add: image_augmentation_eq concat_last_def concat_rows_def ex_image_def ex_mask_def
        ex_world_def ex_draws_def random_hue_def random_brightness_def random_flip_up_down_def
        flip_up_down_def all_but_last_channel_def last_channel_def)
  have r2: "image_augmentation ex_world (ex_draws\<lparr>u_brightness := 0, u_hue := 0\<rparr>) ex_image ex_mask
       = Some ([[[4.41, 5.11, 5.81], [6.51, 7.21, 7.91]], [[0.21, 0.91, 1.61], [2.31, 3.01, 3.71]]],
               [[[255], [0]], [[0], [255]]])"
    by (simp add: image_augmentation_eq concat_last_def concat_rows_def ex_image_def ex_mask_def
        ex_world_def ex_draws_def random_hue_def random_brightness_def random_flip_up_down_def
        flip_up_down_def all_but_last_channel_def last_channel_def)
  have p: "paired ex_image ex_mask"
    by (simp add: paired_def ex_image_def ex_mask_def)
  from augmentation_keeps_mask_aligned_and_untouched[OF r] p r r2
  show ?thesis by auto
qed

subsection \<open>C10: what the \<open>finally\<close> clause does\<close>

text \<open>
  Claim C10 says that whenever the training block exits, by normal completion or by an
  exception, the \<open>finally\<close> clause requests the coordinator to stop, joins the
  queue-runner threads and saves a checkpoint, so that the checkpoint is saved twice on
  normal completion and is still written on an exception. The clause is three plain
  statements with the save last, and the save is not reached when one of the first two
  raises. Three runs with one epoch, three training rows and two test rows: when every
  call returns, the checkpoint is saved twice; when the first training row names a
  missing file, the batch raises, \<open>coord.join\<close> raises the error of the reader thread again
  and \<open>saver.save\<close> is not called; when \<open>tf.train.start_queue_runners\<close> raises, \<open>threads\<close>
  is unbound, reading it raises \<open>UnboundLocalError\<close>, and neither \<open>join\<close> nor \<open>save\<close> is
  called.
\<close>

theorem finally_clause_skips_save_when_join_raises:
  "train_block env_all_return flags_one_epoch 3 2 start =
     (Inr (),
      \<lparr>trace = [(GetGlobalStep, True), (NewCoordinator, True), (StartQueueRunners, True),
                (RunTrainBatch, True), (RunTrainStep, True), (AddTrainSummary, True),
                (RunTestBatch, True), (RunTestStep, True), (AddTestSummary, True),
                (Save ''models/model.ckpt'', True),
                (RequestStop, True), (Join, True), (Save ''models/model.ckpt'', True)],
       coord_bound = True, threads_bound = True\<rparr>)
   \<and> train_block env_reader_fails flags_one_epoch 3 2 start =
     (Inl (OtherError ''NotFoundError''),
      \<lparr>trace = [(GetGlobalStep, True), (NewCoordinator, True), (StartQueueRunners, True),
                (RunTrainBatch, False), (RequestStop, True), (Join, False)],
       coord_bound = True, threads_bound = True\<rparr>)
   \<and> train_block env_runners_fail flags_one_epoch 3 2 start =
     (Inl UnboundLocalError,
      \<lparr>trace = [(GetGlobalStep, True), (NewCoordinator, True), (StartQueueRunners, False),
                (RequestStop, True)],
       coord_bound = True, threads_bound = False\<rparr>)"
proof (intro conjI)
  show "train_block env_all_return flags_one_epoch 3 2 start =
     (Inr (),
      \<lparr>trace = [(GetGlobalStep, True), (NewCoordinator, True), (StartQueueRunners, True),
                (RunTrainBatch, True), (RunTrainStep, True), (AddTrainSummary, True),
                (RunTestBatch, True), (RunTestStep, True), (AddTestSummary, True),
                (Save ''models/model.ckpt'', True),
                (RequestStop, True), (Join, True), (Save ''models/model.ckpt'', True)],
       coord_bound = True, threads_bound = True\<rparr>)"
    by code_simp
  show "train_block env_reader_fails flags_one_epoch 3 2 start =
     (Inl (OtherError ''NotFoundError''),
      \<lparr>trace = [(GetGlobalStep, True), (NewCoordinator, True), (StartQueueRunners, True),
                (RunTrainBatch, False), (RequestStop, True), (Join, False)],
       coord_bound = True, threads_bound = True\<rparr>)"
    by code_simp
  show "train_block env_runners_fail flags_one_epoch 3 2 start =
     (Inl UnboundLocalError,
      \<lparr>trace = [(GetGlobalStep, True), (NewCoordinator, True), (StartQueueRunners, False),
                (RequestStop, True)],
       coord_bound = True, threads_bound = False\<rparr>)"
    by code_simp
qed
end
